theory Spec2Isabelle
  imports Main
begin

section \<open>JavaScript values\<close>

text \<open>
  The values that travel through the relay are JSON documents (request bodies parsed by
  \<^verbatim>\<open>express.json()\<close>, upstream bodies parsed by \<^verbatim>\<open>response.json()\<close>) plus
  \<^verbatim>\<open>undefined\<close>. An object is its list of own properties in insertion order with
  distinct keys. Numbers are restricted to integers: the code only tests numbers for
  truthiness and interpolates them into prompts.
\<close>

datatype jsvalue =
    JUndefined
  | JNull
  | JBool bool
  | JNum int
  | JStr string
  | JArr "jsvalue list"
  | JObj "(string \<times> jsvalue) list"

text \<open>
  Thrown values: \<^verbatim>\<open>new Error(msg)\<close>, and the engine's own TypeError and SyntaxError,
  each with its message (TypeError messages in V8's wording).
\<close>

datatype js_error =
    Error string
  | TypeError string
  | SyntaxError string

fun message :: "js_error \<Rightarrow> string" where
  "message (Error m) = m"
| "message (TypeError m) = m"
| "message (SyntaxError m) = m"

text \<open>Truthiness, as tested by \<^verbatim>\<open>!x\<close>, \<^verbatim>\<open>x ? a : b\<close> and \<^verbatim>\<open>if (x)\<close>.\<close>

fun truthy :: "jsvalue \<Rightarrow> bool" where
  "truthy JUndefined = False"
| "truthy JNull = False"
| "truthy (JBool b) = b"
| "truthy (JNum n) = (n \<noteq> 0)"
| "truthy (JStr s) = (s \<noteq> [])"
| "truthy (JArr xs) = True"
| "truthy (JObj kvs) = True"

text \<open>
  Reading a named property \<^verbatim>\<open>v.k\<close>. On \<^verbatim>\<open>null\<close> and \<^verbatim>\<open>undefined\<close> the engine throws a
  TypeError; an object yields its own property or \<^verbatim>\<open>undefined\<close>; arrays, strings, numbers
  and booleans yield \<^verbatim>\<open>undefined\<close> for the names read in this program
  (\<^verbatim>\<open>role\<close>, \<^verbatim>\<open>content\<close>, \<^verbatim>\<open>generated_text\<close>, \<^verbatim>\<open>text\<close>, \<^verbatim>\<open>messages\<close>, \<^verbatim>\<open>password\<close>),
  none of which is defined on a built-in prototype.
\<close>

fun get_prop :: "jsvalue \<Rightarrow> string \<Rightarrow> js_error + jsvalue" where
  "get_prop JUndefined k =
     Inl (TypeError (''Cannot read properties of undefined (reading '' @ [CHR 0x27] @ k @ [CHR 0x27] @ '')''))"
| "get_prop JNull k =
     Inl (TypeError (''Cannot read properties of null (reading '' @ [CHR 0x27] @ k @ [CHR 0x27] @ '')''))"
| "get_prop (JObj kvs) k = Inr (case map_of kvs k of None \<Rightarrow> JUndefined | Some v \<Rightarrow> v)"
| "get_prop v k = Inr JUndefined"

text \<open>Reading element zero, \<^verbatim>\<open>v[0]\<close>.\<close>

fun get_index0 :: "jsvalue \<Rightarrow> js_error + jsvalue" where
  "get_index0 JUndefined = Inl (TypeError ''Cannot read properties of undefined (reading '0')'')"
| "get_index0 JNull = Inl (TypeError ''Cannot read properties of null (reading '0')'')"
| "get_index0 (JArr xs) = Inr (case xs of [] \<Rightarrow> JUndefined | x # _ \<Rightarrow> x)"
| "get_index0 (JStr s) = Inr (case s of [] \<Rightarrow> JUndefined | c # _ \<Rightarrow> JStr [c])"
| "get_index0 (JObj kvs) = Inr (case map_of kvs ''0'' of None \<Rightarrow> JUndefined | Some v \<Rightarrow> v)"
| "get_index0 v = Inr JUndefined"

fun is_array :: "jsvalue \<Rightarrow> bool" where
  "is_array (JArr xs) = True"
| "is_array v = False"

fun elements :: "jsvalue \<Rightarrow> jsvalue list" where
  "elements (JArr xs) = xs"
| "elements v = []"

text \<open>Sequencing of steps that may throw.\<close>

fun and_then :: "js_error + 'a \<Rightarrow> ('a \<Rightarrow> js_error + 'b) \<Rightarrow> js_error + 'b" where
  "and_then (Inl e) f = Inl e"
| "and_then (Inr x) f = f x"

subsection \<open>String conversion in template literals\<close>

fun show_nat :: "nat \<Rightarrow> string" where
  "show_nat n =
     (if n < 10 then [''0123456789'' ! n]
      else show_nat (n div 10) @ [''0123456789'' ! (n mod 10)])"

declare show_nat.simps [simp del]

definition show_int :: "int \<Rightarrow> string" where
  "show_int i = (if i < 0 then CHR ''-'' # show_nat (nat (- i)) else show_nat (nat i))"

fun join_comma :: "string list \<Rightarrow> string" where
  "join_comma [] = []"
| "join_comma [s] = s"
| "join_comma (s # t # ss) = s @ '','' @ join_comma (t # ss)"

text \<open>The results of a list of steps in order, or the error of the first step that throws.\<close>

fun collect :: "(js_error + 'a) list \<Rightarrow> js_error + 'a list" where
  "collect [] = Inr []"
| "collect (r # rs) = and_then r (\<lambda>x. and_then (collect rs) (\<lambda>xs. Inr (x # xs)))"

text \<open>
  \<^verbatim>\<open>`${v}`\<close>: strings as they are; arrays joined with commas, \<^verbatim>\<open>null\<close> and \<^verbatim>\<open>undefined\<close>
  elements as the empty string and the others converted in turn; plain objects as
  \<^verbatim>\<open>[object Object]\<close>. An object with an own property \<^verbatim>\<open>toString\<close> cannot be converted:
  a parsed JSON value is never a function, so the engine finds no usable \<^verbatim>\<open>toString\<close>, the
  inherited \<^verbatim>\<open>valueOf\<close> gives the object back, and a TypeError is thrown. Numbers are the
  integers a double holds exactly (magnitude up to \<open>2\<^sup>5\<^sup>3\<close>), which print in decimal;
  larger and fractional numbers are outside this model.
\<close>

fun to_string :: "jsvalue \<Rightarrow> js_error + string" where
  "to_string JUndefined = Inr ''undefined''"
| "to_string JNull = Inr ''null''"
| "to_string (JBool b) = Inr (if b then ''true'' else ''false'')"
| "to_string (JNum n) = Inr (show_int n)"
| "to_string (JStr s) = Inr s"
| "to_string (JArr xs) =
     and_then
       (collect (map (\<lambda>x. if x = JNull \<or> x = JUndefined then Inr [] else to_string x) xs))
       (\<lambda>ss. Inr (join_comma ss))"
| "to_string (JObj kvs) =
     (case map_of kvs ''toString'' of
        None \<Rightarrow> Inr ''[object Object]''
      | Some v \<Rightarrow> Inl (TypeError ''Cannot convert object to primitive value''))"

subsection \<open>\<^verbatim>\<open>String.prototype.trim\<close> and \<^verbatim>\<open>Array.prototype.slice\<close>\<close>

definition is_space :: "char \<Rightarrow> bool" where
  "is_space c = (c \<in> set [CHR 0x09, CHR 0x0A, CHR 0x0B, CHR 0x0C, CHR 0x0D, CHR 0x20])"

definition trim :: "string \<Rightarrow> string" where
  "trim s = rev (dropWhile is_space (rev (dropWhile is_space s)))"

text \<open>
  White space is the ASCII set (tab, line feed, vertical tab, form feed, carriage return,
  space); the other Unicode white space that \<^verbatim>\<open>trim\<close> removes is outside this model.
  \<^verbatim>\<open>ghostResponse.trim()\<close> on whatever the adapter returned: only a string has the method;
  a parsed JSON value never holds a function, so every other value throws.
\<close>

fun call_trim :: "jsvalue \<Rightarrow> js_error + string" where
  "call_trim (JStr s) = Inr (trim s)"
| "call_trim JUndefined =
     Inl (TypeError ''Cannot read properties of undefined (reading 'trim')'')"
| "call_trim JNull = Inl (TypeError ''Cannot read properties of null (reading 'trim')'')"
| "call_trim v = Inl (TypeError ''ghostResponse.trim is not a function'')"

text \<open>\<^verbatim>\<open>xs.slice(-n)\<close> for a positive \<open>n\<close>: the last \<open>n\<close> elements, or all of them.\<close>

definition slice_last :: "nat \<Rightarrow> 'a list \<Rightarrow> 'a list" where
  "slice_last n xs = drop (length xs - n) xs"

section \<open>Configuration, clock and process state\<close>

text \<open>
  What the process reads from its environment. \<open>DAILY_LIMIT\<close> is the value of
  \<^verbatim>\<open>parseInt(process.env.DAILY_REQUEST_LIMIT || '200')\<close> (\<^verbatim>\<open>'500'\<close> in the prompt
  variant) and \<open>HACKATHON_END_DATE\<close> the time value of
  \<^verbatim>\<open>new Date(process.env.HACKATHON_END_DATE || '2025-12-31')\<close>, in milliseconds;
  \<open>None\<close> is \<^verbatim>\<open>NaN\<close> (an unparsable setting), with which every comparison is false.
  \<open>development\<close> is \<^verbatim>\<open>process.env.NODE_ENV === 'development'\<close>.
\<close>

record config =
  env_DEMO_PASSWORD :: "string option"
  DAILY_LIMIT :: "int option"
  HACKATHON_END_DATE :: "int option"
  development :: bool

text \<open>\<^verbatim>\<open>process.env.DEMO_PASSWORD || 'echoes2025'\<close>: an unset or empty variable gives the default.\<close>

definition DEMO_PASSWORD :: "config \<Rightarrow> string" where
  "DEMO_PASSWORD cfg =
     (case env_DEMO_PASSWORD cfg of
        None \<Rightarrow> ''echoes2025''
      | Some s \<Rightarrow> if s = [] then ''echoes2025'' else s)"

text \<open>
  The two readings of \<^verbatim>\<open>new Date()\<close> a request makes: \<open>today\<close> is its
  \<^verbatim>\<open>toDateString()\<close> inside \<^verbatim>\<open>resetDailyCounter\<close>, \<open>now\<close> its time value inside
  \<^verbatim>\<open>isDemoActive\<close>.
\<close>

record clock =
  today :: string
  now :: int

text \<open>
  The module-level variables, and the store of the \<^verbatim>\<open>express-rate-limit\<close> instance, whose
  type is left open.
\<close>

record 'l server_state =
  dailyRequestCount :: int
  lastResetDate :: string
  limiter_store :: 'l

record request =
  x_demo_password :: "string option"
  body :: jsvalue

record http_response =
  status :: nat
  json :: jsvalue

definition isDemoActive :: "config \<Rightarrow> clock \<Rightarrow> bool" where
  "isDemoActive cfg clk =
     (case HACKATHON_END_DATE cfg of None \<Rightarrow> False | Some e \<Rightarrow> now clk \<le> e)"

definition resetDailyCounter :: "clock \<Rightarrow> 'l server_state \<Rightarrow> 'l server_state" where
  "resetDailyCounter clk st =
     (if today clk \<noteq> lastResetDate st
      then st\<lparr>dailyRequestCount := 0, lastResetDate := today clk\<rparr>
      else st)"

text \<open>\<^verbatim>\<open>dailyRequestCount >= DAILY_LIMIT\<close> and \<^verbatim>\<open>Math.max(0, DAILY_LIMIT - dailyRequestCount)\<close>
  as serialised by \<^verbatim>\<open>res.json\<close>, which writes \<^verbatim>\<open>NaN\<close> as \<^verbatim>\<open>null\<close>.\<close>

definition limit_reached :: "config \<Rightarrow> int \<Rightarrow> bool" where
  "limit_reached cfg count =
     (case DAILY_LIMIT cfg of None \<Rightarrow> False | Some l \<Rightarrow> count \<ge> l)"

definition remaining :: "config \<Rightarrow> int \<Rightarrow> jsvalue" where
  "remaining cfg count =
     (case DAILY_LIMIT cfg of None \<Rightarrow> JNull | Some l \<Rightarrow> JNum (max 0 (l - count)))"

definition dailyLimit_json :: "config \<Rightarrow> jsvalue" where
  "dailyLimit_json cfg = (case DAILY_LIMIT cfg of None \<Rightarrow> JNull | Some l \<Rightarrow> JNum l)"

section \<open>Middleware\<close>

text \<open>A middleware either answers the request (\<open>Some\<close>) or calls \<^verbatim>\<open>next()\<close> (\<open>None\<close>).\<close>

definition auth_error_response :: http_response where
  "auth_error_response =
     \<lparr>status = 401,
      json = JObj [(''error'', JStr ''Invalid or missing demo password''),
                   (''isAuthError'', JBool True)]\<rparr>"

definition validatePassword :: "config \<Rightarrow> request \<Rightarrow> http_response option" where
  "validatePassword cfg req =
     (case x_demo_password req of
        None \<Rightarrow> Some auth_error_response
      | Some password \<Rightarrow>
          if password = [] \<or> password \<noteq> DEMO_PASSWORD cfg
          then Some auth_error_response
          else None)"

text \<open>
  \<^verbatim>\<open>chatLimiter\<close> is built by the \<^verbatim>\<open>express-rate-limit\<close> package, which is not part of the
  repository: the package's decision procedure is a parameter
  \<open>limiter :: 'l \<Rightarrow> request \<Rightarrow> bool \<times> 'l\<close> that, from its store and the request, says
  whether the request is over the limit and gives the new store. Over the limit, the
  package answers with status 429 and the configured \<^verbatim>\<open>message\<close>.
\<close>

definition rate_limited_response :: http_response where
  "rate_limited_response =
     \<lparr>status = 429,
      json = JObj [(''error'', JStr ''Too many requests. Please wait a minute and try again.''),
                   (''isRateLimited'', JBool True)]\<rparr>"

definition chatLimiter ::
  "('l \<Rightarrow> request \<Rightarrow> bool \<times> 'l) \<Rightarrow> request \<Rightarrow> 'l server_state
     \<Rightarrow> http_response option \<times> 'l server_state" where
  "chatLimiter limiter req st =
     (case limiter (limiter_store st) req of
        (over, store') \<Rightarrow>
          (if over then Some rate_limited_response else None, st\<lparr>limiter_store := store'\<rparr>))"

definition daily_limit_response :: http_response where
  "daily_limit_response =
     \<lparr>status = 429,
      json = JObj [(''error'', JStr ''Daily demo limit reached.''),
                   (''isDailyLimitReached'', JBool True)]\<rparr>"

definition dailyLimitMiddleware ::
  "config \<Rightarrow> clock \<Rightarrow> 'l server_state \<Rightarrow> http_response option \<times> 'l server_state" where
  "dailyLimitMiddleware cfg clk st =
     (let st' = resetDailyCounter clk st
      in if limit_reached cfg (dailyRequestCount st')
         then (Some daily_limit_response, st')
         else (None, st'))"

section \<open>The upstream provider\<close>

text \<open>
  What \<^verbatim>\<open>fetch\<close> gives back: the promise rejects (a network failure), or it resolves to
  a response with a status, the body as \<^verbatim>\<open>response.text()\<close> reads it and the outcome of
  \<^verbatim>\<open>response.json()\<close>, which throws a SyntaxError on a body that is not JSON.
\<close>

record upstream_response =
  up_status :: nat
  up_text :: string
  up_json :: "js_error + jsvalue"

datatype fetch_result = Rejected js_error | Resolved upstream_response

definition ok :: "upstream_response \<Rightarrow> bool" where
  "ok r = (200 \<le> up_status r \<and> up_status r \<le> 299)"

text \<open>
  The requests sent upstream. \<open>ClaudeRequest system messages\<close> is the POST to
  \<^verbatim>\<open>ANTHROPIC_API_URL\<close> with body
  \<^verbatim>\<open>{model: 'claude-3-5-haiku-20241022', max_tokens: 200, system, messages}\<close>;
  \<open>HFRequest prompt\<close> is the POST to \<^verbatim>\<open>HF_API_URL\<close> with body
  \<^verbatim>\<open>{inputs: prompt, parameters: {max_new_tokens: 200, temperature: 0.8, top_p: 0.9, return_full_text: false}}\<close>.
  What a call does besides returning is its list of events, in order.
\<close>

datatype upstream_request =
    ClaudeRequest jsvalue "jsvalue list"
  | HFRequest string

datatype event = Fetch upstream_request | Wait nat

section \<open>The structured-message adapter (\<^verbatim>\<open>server.js\<close>)\<close>

text \<open>\<^verbatim>\<open>messages.find(m => m.role === 'system')\<close>; \<^verbatim>\<open>undefined\<close> when no message matches.\<close>

fun find_system :: "jsvalue list \<Rightarrow> js_error + jsvalue" where
  "find_system [] = Inr JUndefined"
| "find_system (m # ms) =
     and_then (get_prop m ''role'')
       (\<lambda>role. if role = JStr ''system'' then Inr m else find_system ms)"

text \<open>\<^verbatim>\<open>messages.filter(m => m.role !== 'system')\<close>.\<close>

fun filter_not_system :: "jsvalue list \<Rightarrow> js_error + jsvalue list" where
  "filter_not_system [] = Inr []"
| "filter_not_system (m # ms) =
     and_then (get_prop m ''role'')
       (\<lambda>role. and_then (filter_not_system ms)
          (\<lambda>rest. Inr (if role \<noteq> JStr ''system'' then m # rest else rest)))"

text \<open>The request \<^verbatim>\<open>callClaude\<close> builds before it calls \<^verbatim>\<open>fetch\<close>.\<close>

definition claude_request :: "jsvalue list \<Rightarrow> js_error + upstream_request" where
  "claude_request messages =
     and_then (find_system messages) (\<lambda>systemMessage.
     and_then (filter_not_system messages) (\<lambda>conversationMessages.
     and_then (if truthy systemMessage then get_prop systemMessage ''content''
               else Inr (JStr []))
       (\<lambda>system. Inr (ClaudeRequest system conversationMessages))))"

text \<open>\<^verbatim>\<open>data.content[0].text\<close>.\<close>

definition first_content_text :: "jsvalue \<Rightarrow> js_error + jsvalue" where
  "first_content_text data =
     and_then (get_prop data ''content'') (\<lambda>content.
     and_then (get_index0 content) (\<lambda>block. get_prop block ''text''))"

definition callClaude ::
  "fetch_result \<Rightarrow> jsvalue list \<Rightarrow> (js_error + jsvalue) \<times> event list" where
  "callClaude upstream messages =
     (case claude_request messages of
        Inl e \<Rightarrow> (Inl e, [])
      | Inr rq \<Rightarrow>
          (case upstream of
             Rejected e \<Rightarrow> (Inl e, [Fetch rq])
           | Resolved response \<Rightarrow>
               if \<not> ok response
               then (Inl (Error (''Claude API error: '' @ show_nat (up_status response)
                                  @ '' - '' @ up_text response)), [Fetch rq])
               else (and_then (up_json response) first_content_text, [Fetch rq])))"

section \<open>The prompt-concatenation adapter (\<^verbatim>\<open>part_000\<close>)\<close>

text \<open>
  Lines 103 to 111 of \<^verbatim>\<open>callHuggingFace\<close>: the value returned for a parsed body, or the
  error thrown. \<open>first_generated_text\<close> is \<^verbatim>\<open>data[0]?.generated_text\<close> on an array.
\<close>

definition first_generated_text :: "jsvalue \<Rightarrow> jsvalue" where
  "first_generated_text data =
     (case get_index0 data of
        Inl e \<Rightarrow> JUndefined
      | Inr first \<Rightarrow>
          (case get_prop first ''generated_text'' of Inl e \<Rightarrow> JUndefined | Inr g \<Rightarrow> g))"

definition normalize :: "jsvalue \<Rightarrow> js_error + jsvalue" where
  "normalize data =
     (if is_array data \<and> truthy (first_generated_text data)
      then Inr (first_generated_text data)
      else and_then (get_prop data ''generated_text'') (\<lambda>g.
        if truthy g then Inr g
        else (case data of
                JStr s \<Rightarrow> Inr data
              | _ \<Rightarrow> Inl (Error ''Unexpected response format''))))"

text \<open>
  What one pass through the \<^verbatim>\<open>try\<close> block makes of the fetch: \<open>None\<close> is the
  \<^verbatim>\<open>continue\<close> of the cold-start branch, \<open>Some (Inr v)\<close> a \<^verbatim>\<open>return v\<close>, and
  \<open>Some (Inl e)\<close> an error thrown to the \<^verbatim>\<open>catch\<close> block.
\<close>

definition attempt :: "fetch_result \<Rightarrow> (js_error + jsvalue) option" where
  "attempt r =
     (case r of
        Rejected e \<Rightarrow> Some (Inl e)
      | Resolved response \<Rightarrow>
          if up_status response = 503 then None
          else if \<not> ok response
          then Some (Inl (Error (''HF API error: '' @ show_nat (up_status response)
                                 @ '' - '' @ up_text response)))
          else Some (and_then (up_json response) normalize))"

fun after :: "event list \<Rightarrow> 'a \<times> event list \<Rightarrow> 'a \<times> event list" where
  "after evs (x, tr) = (x, evs @ tr)"

text \<open>
  The \<^verbatim>\<open>for\<close> loop from iteration \<open>i\<close> on. \<open>upstream i\<close> is the outcome of the fetch of
  iteration \<open>i\<close>. A loop that runs out falls off the end of the function, which returns
  \<^verbatim>\<open>undefined\<close>.
\<close>

function hf_loop ::
  "(nat \<Rightarrow> fetch_result) \<Rightarrow> string \<Rightarrow> nat \<Rightarrow> nat \<Rightarrow> (js_error + jsvalue) \<times> event list" where
  "hf_loop upstream prompt retries i =
     (if i < retries then
        (case attempt (upstream i) of
           None \<Rightarrow>
             after [Fetch (HFRequest prompt), Wait 10000] (hf_loop upstream prompt retries (i + 1))
         | Some (Inr v) \<Rightarrow> (Inr v, [Fetch (HFRequest prompt)])
         | Some (Inl error) \<Rightarrow>
             if i = retries - 1 then (Inl error, [Fetch (HFRequest prompt)])
             else after [Fetch (HFRequest prompt), Wait 2000]
                    (hf_loop upstream prompt retries (i + 1)))
      else (Inr JUndefined, []))"
  by pat_completeness auto
termination
  by (relation "measure (\<lambda>(upstream, prompt, retries, i). retries - i)") auto

declare hf_loop.simps [simp del]

definition callHuggingFace ::
  "(nat \<Rightarrow> fetch_result) \<Rightarrow> string \<Rightarrow> nat \<Rightarrow> (js_error + jsvalue) \<times> event list" where
  "callHuggingFace upstream prompt retries = hf_loop upstream prompt retries 0"

fun buildPrompt_from :: "string \<Rightarrow> jsvalue list \<Rightarrow> js_error + string" where
  "buildPrompt_from prompt [] = Inr prompt"
| "buildPrompt_from prompt (msg # msgs) =
     and_then (get_prop msg ''role'') (\<lambda>role.
       if role = JStr ''system'' then
         and_then (get_prop msg ''content'') (\<lambda>content.
         and_then (to_string content) (\<lambda>text.
           buildPrompt_from
             (prompt @ ''<s>[INST] You are playing a character. '' @ text
                     @ '' [/INST]'' @ [CHR 0x0A, CHR 0x0A]) msgs))
       else if role = JStr ''user'' then
         and_then (get_prop msg ''content'') (\<lambda>content.
         and_then (to_string content) (\<lambda>text.
           buildPrompt_from (prompt @ ''[INST] '' @ text @ '' [/INST]'' @ [CHR 0x0A]) msgs))
       else if role = JStr ''assistant'' then
         and_then (get_prop msg ''content'') (\<lambda>content.
         and_then (to_string content) (\<lambda>text.
           buildPrompt_from (prompt @ text @ [CHR 0x0A, CHR 0x0A]) msgs))
       else buildPrompt_from prompt msgs)"

definition buildPrompt :: "jsvalue list \<Rightarrow> js_error + string" where
  "buildPrompt messages = buildPrompt_from [] messages"

section \<open>Route handlers\<close>

text \<open>
  What a route leaves behind: the response sent, the process state, and the upstream
  events of the request.
\<close>

record 'l outcome =
  response :: http_response
  state :: "'l server_state"
  trace :: "event list"

text \<open>\<^verbatim>\<open>const { k } = req.body\<close>: throws on \<^verbatim>\<open>undefined\<close> and \<^verbatim>\<open>null\<close>.\<close>

definition destructure :: "jsvalue \<Rightarrow> string \<Rightarrow> js_error + jsvalue" where
  "destructure v k =
     (case v of
        JUndefined \<Rightarrow>
          Inl (TypeError (''Cannot destructure property '' @ [CHR 0x27] @ k @ [CHR 0x27]
                          @ '' of 'req.body' as it is undefined.''))
      | JNull \<Rightarrow>
          Inl (TypeError (''Cannot destructure property '' @ [CHR 0x27] @ k @ [CHR 0x27]
                          @ '' of 'req.body' as it is null.''))
      | _ \<Rightarrow> get_prop v k)"

text \<open>The \<^verbatim>\<open>catch\<close> block of the chat handlers.\<close>

definition error_response :: "config \<Rightarrow> js_error \<Rightarrow> http_response" where
  "error_response cfg error =
     \<lparr>status = 500,
      json = JObj [(''error'', JStr ''An error occurred.''),
                   (''details'', JStr (if development cfg then message error
                                       else ''Please try again''))]\<rparr>"

definition demo_expired_response :: http_response where
  "demo_expired_response =
     \<lparr>status = 403,
      json = JObj [(''error'', JStr ''Demo period has ended.''), (''isDemoExpired'', JBool True)]\<rparr>"

definition invalid_request_response :: http_response where
  "invalid_request_response =
     \<lparr>status = 400,
      json = JObj [(''error'', JStr ''Invalid request. Messages array is required.'')]\<rparr>"

text \<open>\<^verbatim>\<open>!messages || !Array.isArray(messages) || messages.length === 0\<close>.\<close>

definition invalid_messages :: "jsvalue \<Rightarrow> bool" where
  "invalid_messages messages =
     (\<not> truthy messages \<or> \<not> is_array messages \<or> length (elements messages) = 0)"

text \<open>
  The part of both chat handlers after the adapter call: a thrown error goes to the
  \<^verbatim>\<open>catch\<close> block; a returned value is followed by \<^verbatim>\<open>dailyRequestCount++\<close> and then by
  the evaluation of the response object, whose \<^verbatim>\<open>ghostResponse.trim()\<close> may throw in turn.
\<close>

definition finish_chat ::
  "config \<Rightarrow> string \<Rightarrow> 'l server_state \<Rightarrow> (js_error + jsvalue) \<times> event list \<Rightarrow> 'l outcome" where
  "finish_chat cfg provider st adapter_result =
     (case adapter_result of
        (Inl error, tr) \<Rightarrow> \<lparr>response = error_response cfg error, state = st, trace = tr\<rparr>
      | (Inr ghostResponse, tr) \<Rightarrow>
          (let st' = st\<lparr>dailyRequestCount := dailyRequestCount st + 1\<rparr>
           in case call_trim ghostResponse of
                Inl error \<Rightarrow> \<lparr>response = error_response cfg error, state = st', trace = tr\<rparr>
              | Inr trimmed \<Rightarrow>
                  \<lparr>response =
                     \<lparr>status = 200,
                      json = JObj [(''message'', JStr trimmed),
                                   (''isDemoMode'', JBool True),
                                   (''aiProvider'', JStr provider),
                                   (''requestsRemaining'',
                                      remaining cfg (dailyRequestCount st'))]\<rparr>,
                   state = st', trace = tr\<rparr>))"

subsection \<open>\<^verbatim>\<open>server.js\<close>\<close>

definition chat_handler_claude ::
  "config \<Rightarrow> clock \<Rightarrow> fetch_result \<Rightarrow> request \<Rightarrow> 'l server_state \<Rightarrow> 'l outcome" where
  "chat_handler_claude cfg clk upstream req st =
     (if \<not> isDemoActive cfg clk
      then \<lparr>response = demo_expired_response, state = st, trace = []\<rparr>
      else
        (case destructure (body req) ''messages'' of
           Inl error \<Rightarrow> \<lparr>response = error_response cfg error, state = st, trace = []\<rparr>
         | Inr messages \<Rightarrow>
             if invalid_messages messages
             then \<lparr>response = invalid_request_response, state = st, trace = []\<rparr>
             else
               (let limitedMessages = slice_last 12 (elements messages)
                in finish_chat cfg ''Claude 3.5 Haiku'' st (callClaude upstream limitedMessages))))"

subsection \<open>\<^verbatim>\<open>part_000\<close>\<close>

definition chat_handler_hf ::
  "config \<Rightarrow> clock \<Rightarrow> (nat \<Rightarrow> fetch_result) \<Rightarrow> request \<Rightarrow> 'l server_state \<Rightarrow> 'l outcome" where
  "chat_handler_hf cfg clk upstream req st =
     (if \<not> isDemoActive cfg clk
      then \<lparr>response = demo_expired_response, state = st, trace = []\<rparr>
      else
        (case destructure (body req) ''messages'' of
           Inl error \<Rightarrow> \<lparr>response = error_response cfg error, state = st, trace = []\<rparr>
         | Inr messages \<Rightarrow>
             if invalid_messages messages
             then \<lparr>response = invalid_request_response, state = st, trace = []\<rparr>
             else
               (let limitedMessages = slice_last 8 (elements messages)
                in case buildPrompt limitedMessages of
                     Inl error \<Rightarrow>
                       \<lparr>response = error_response cfg error, state = st, trace = []\<rparr>
                   | Inr prompt \<Rightarrow>
                       finish_chat cfg ''Hugging Face'' st (callHuggingFace upstream prompt 3))))"

subsection \<open>The chat route: \<^verbatim>\<open>validatePassword, chatLimiter, dailyLimitMiddleware\<close>, handler\<close>

text \<open>
  \<^verbatim>\<open>app.post('/api/chat', validatePassword, chatLimiter, dailyLimitMiddleware, handler)\<close>:
  each middleware runs when the one before it called \<^verbatim>\<open>next()\<close>; the handler is the
  last argument.
\<close>

definition chat_route ::
  "(clock \<Rightarrow> 'u \<Rightarrow> request \<Rightarrow> 'l server_state \<Rightarrow> 'l outcome)
     \<Rightarrow> config \<Rightarrow> ('l \<Rightarrow> request \<Rightarrow> bool \<times> 'l) \<Rightarrow> clock \<Rightarrow> 'u \<Rightarrow> request
     \<Rightarrow> 'l server_state \<Rightarrow> 'l outcome" where
  "chat_route handler cfg limiter clk upstream req st =
     (case validatePassword cfg req of
        Some r \<Rightarrow> \<lparr>response = r, state = st, trace = []\<rparr>
      | None \<Rightarrow>
          (case chatLimiter limiter req st of
             (Some r, st1) \<Rightarrow> \<lparr>response = r, state = st1, trace = []\<rparr>
           | (None, st1) \<Rightarrow>
               (case dailyLimitMiddleware cfg clk st1 of
                  (Some r, st2) \<Rightarrow> \<lparr>response = r, state = st2, trace = []\<rparr>
                | (None, st2) \<Rightarrow> handler clk upstream req st2)))"

definition chat_claude ::
  "config \<Rightarrow> ('l \<Rightarrow> request \<Rightarrow> bool \<times> 'l) \<Rightarrow> clock \<Rightarrow> fetch_result \<Rightarrow> request
     \<Rightarrow> 'l server_state \<Rightarrow> 'l outcome" where
  "chat_claude cfg = chat_route (chat_handler_claude cfg) cfg"

definition chat_hf ::
  "config \<Rightarrow> ('l \<Rightarrow> request \<Rightarrow> bool \<times> 'l) \<Rightarrow> clock \<Rightarrow> (nat \<Rightarrow> fetch_result) \<Rightarrow> request
     \<Rightarrow> 'l server_state \<Rightarrow> 'l outcome" where
  "chat_hf cfg = chat_route (chat_handler_hf cfg) cfg"

subsection \<open>\<^verbatim>\<open>GET /health\<close>\<close>

definition health ::
  "string \<Rightarrow> config \<Rightarrow> clock \<Rightarrow> 'l server_state \<Rightarrow> http_response \<times> 'l server_state" where
  "health provider cfg clk st =
     (let st' = resetDailyCounter clk st
      in (\<lparr>status = 200,
           json = JObj [(''status'', JStr ''online''),
                        (''demoActive'', JBool (isDemoActive cfg clk)),
                        (''requestsToday'', JNum (dailyRequestCount st')),
                        (''dailyLimit'', dailyLimit_json cfg),
                        (''remainingToday'', remaining cfg (dailyRequestCount st')),
                        (''aiProvider'', JStr provider)]\<rparr>, st'))"

definition health_claude ::
  "config \<Rightarrow> clock \<Rightarrow> 'l server_state \<Rightarrow> http_response \<times> 'l server_state" where
  "health_claude = health ''Anthropic Claude 3.5 Haiku''"

definition health_hf ::
  "config \<Rightarrow> clock \<Rightarrow> 'l server_state \<Rightarrow> http_response \<times> 'l server_state" where
  "health_hf = health ''Hugging Face (FREE)''"

subsection \<open>\<^verbatim>\<open>POST /api/verify\<close>\<close>

text \<open>
  The handler has no \<^verbatim>\<open>try\<close>: an error thrown while it reads the body goes to the
  framework (\<open>Inl\<close>). The two files differ in the success body only: \<^verbatim>\<open>server.js\<close> adds
  \<^verbatim>\<open>aiProvider\<close>, \<^verbatim>\<open>part_000\<close> does not.
\<close>

definition verify ::
  "(string \<times> jsvalue) list \<Rightarrow> config \<Rightarrow> clock \<Rightarrow> request \<Rightarrow> 'l server_state
     \<Rightarrow> js_error + http_response \<times> 'l server_state" where
  "verify extra cfg clk req st =
     and_then (destructure (body req) ''password'') (\<lambda>password.
       if \<not> truthy password
       then Inr (\<lparr>status = 400,
                  json = JObj [(''valid'', JBool False),
                               (''error'', JStr ''Password is required'')]\<rparr>, st)
       else if password = JStr (DEMO_PASSWORD cfg)
       then (let st' = resetDailyCounter clk st
             in Inr (\<lparr>status = 200,
                      json = JObj ([(''valid'', JBool True),
                                    (''message'', JStr ''Password verified successfully''),
                                    (''requestsRemaining'',
                                       remaining cfg (dailyRequestCount st'))] @ extra)\<rparr>, st'))
       else Inr (\<lparr>status = 401,
                  json = JObj [(''valid'', JBool False), (''error'', JStr ''Invalid password'')]\<rparr>,
                 st))"

definition verify_claude ::
  "config \<Rightarrow> clock \<Rightarrow> request \<Rightarrow> 'l server_state \<Rightarrow> js_error + http_response \<times> 'l server_state" where
  "verify_claude = verify [(''aiProvider'', JStr ''Claude 3.5 Haiku'')]"

definition verify_hf ::
  "config \<Rightarrow> clock \<Rightarrow> request \<Rightarrow> 'l server_state \<Rightarrow> js_error + http_response \<times> 'l server_state" where
  "verify_hf = verify []"

text \<open>Whether a response body is an object with the given key.\<close>

definition has_key :: "jsvalue \<Rightarrow> string \<Rightarrow> bool" where
  "has_key v k = (case v of JObj kvs \<Rightarrow> k \<in> set (map fst kvs) | _ \<Rightarrow> False)"

section \<open>Vocabulary for the statements\<close>

text \<open>The verdicts of the rate and daily gates on a request, and the state each passes on.\<close>

abbreviation rate_limited :: "('l \<Rightarrow> request \<Rightarrow> bool \<times> 'l) \<Rightarrow> request \<Rightarrow> 'l server_state \<Rightarrow> bool" where
  "rate_limited limiter req st \<equiv> fst (limiter (limiter_store st) req)"

abbreviation after_limiter ::
  "('l \<Rightarrow> request \<Rightarrow> bool \<times> 'l) \<Rightarrow> request \<Rightarrow> 'l server_state \<Rightarrow> 'l server_state" where
  "after_limiter limiter req st \<equiv> st\<lparr>limiter_store := snd (limiter (limiter_store st) req)\<rparr>"

abbreviation after_gates ::
  "('l \<Rightarrow> request \<Rightarrow> bool \<times> 'l) \<Rightarrow> clock \<Rightarrow> request \<Rightarrow> 'l server_state \<Rightarrow> 'l server_state" where
  "after_gates limiter clk req st \<equiv> resetDailyCounter clk (after_limiter limiter req st)"

abbreviation quota_exhausted :: "config \<Rightarrow> clock \<Rightarrow> 'l server_state \<Rightarrow> bool" where
  "quota_exhausted cfg clk st \<equiv> limit_reached cfg (dailyRequestCount (resetDailyCounter clk st))"

text \<open>The role and content of a message, \<^verbatim>\<open>undefined\<close> where they cannot be read.\<close>

definition role_of :: "jsvalue \<Rightarrow> jsvalue" where
  "role_of m = (case get_prop m ''role'' of Inl e \<Rightarrow> JUndefined | Inr r \<Rightarrow> r)"

definition content_of :: "jsvalue \<Rightarrow> jsvalue" where
  "content_of m = (case get_prop m ''content'' of Inl e \<Rightarrow> JUndefined | Inr c \<Rightarrow> c)"

text \<open>
  The conversation body in the words of the specification of the structured-message
  adapter: the messages that remain once the first message with role \<^verbatim>\<open>system\<close> is taken
  out.
\<close>

fun without_first_system :: "jsvalue list \<Rightarrow> jsvalue list" where
  "without_first_system [] = []"
| "without_first_system (m # ms) =
     (if role_of m = JStr ''system'' then ms else m # without_first_system ms)"

text \<open>
  The response shapes in the words of the specification of the prompt-concatenation
  adapter: a list whose first element carries a \<^verbatim>\<open>generated_text\<close> field, a bare object
  carrying \<^verbatim>\<open>generated_text\<close>, or a raw string.
\<close>

fun recognized_shape :: "jsvalue \<Rightarrow> bool" where
  "recognized_shape (JArr (first # rest)) = has_key first ''generated_text''"
| "recognized_shape (JObj kvs) = has_key (JObj kvs) ''generated_text''"
| "recognized_shape (JStr s) = True"
| "recognized_shape v = False"

section \<open>Sample inputs\<close>

text \<open>
  A process state left by Monday 3 November 2025 with five requests served, and the first
  reading of the clock on the next day (midnight UTC).
\<close>

definition monday_state :: "unit server_state" where
  "monday_state =
     \<lparr>dailyRequestCount = 5, lastResetDate = ''Mon Nov 03 2025'', limiter_store = ()\<rparr>"

definition monday :: clock where
  "monday = \<lparr>today = ''Mon Nov 03 2025'', now = 1762128000000\<rparr>"

definition tuesday :: clock where
  "tuesday = \<lparr>today = ''Tue Nov 04 2025'', now = 1762214400000\<rparr>"

text \<open>
  The default configuration of \<^verbatim>\<open>server.js\<close> (no variable set: password
  \<^verbatim>\<open>echoes2025\<close>, 200 requests a day, demo until 31 December 2025, midnight UTC), the
  same with the daily limit of \<^verbatim>\<open>part_000\<close>, and the first reading of the clock on
  1 January 2026, after the demo has ended.
\<close>

definition default_config :: config where
  "default_config =
     \<lparr>env_DEMO_PASSWORD = None, DAILY_LIMIT = Some 200,
      HACKATHON_END_DATE = Some 1767139200000, development = False\<rparr>"

definition default_config_hf :: config where
  "default_config_hf = default_config\<lparr>DAILY_LIMIT := Some 500\<rparr>"

definition new_year :: clock where
  "new_year = \<lparr>today = ''Thu Jan 01 2026'', now = 1767225600000\<rparr>"

text \<open>A state of Monday with the daily limit of \<^verbatim>\<open>server.js\<close> used up.\<close>

definition exhausted_state :: "unit server_state" where
  "exhausted_state =
     \<lparr>dailyRequestCount = 200, lastResetDate = ''Mon Nov 03 2025'', limiter_store = ()\<rparr>"

text \<open>Chat requests: one user message with the right password, and the same without a password.\<close>

definition hello_message :: jsvalue where
  "hello_message = JObj [(''role'', JStr ''user''), (''content'', JStr ''Hello'')]"

definition hello_request :: request where
  "hello_request =
     \<lparr>x_demo_password = Some ''echoes2025'',
      body = JObj [(''messages'', JArr [hello_message])]\<rparr>"

definition anonymous_request :: request where
  "anonymous_request = hello_request\<lparr>x_demo_password := None\<rparr>"

text \<open>Two rate limiters without a store: one that lets every request pass, one that lets none.\<close>

definition never_over :: "unit \<Rightarrow> request \<Rightarrow> bool \<times> unit" where
  "never_over store req = (False, store)"

definition always_over :: "unit \<Rightarrow> request \<Rightarrow> bool \<times> unit" where
  "always_over store req = (True, store)"

text \<open>Upstream outcomes: a network failure, a cold model, and two successful answers.\<close>

definition network_failure :: fetch_result where
  "network_failure = Rejected (TypeError ''fetch failed'')"

definition cold_start :: fetch_result where
  "cold_start =
     Resolved \<lparr>up_status = 503, up_text = ''Model is loading'',
               up_json = Inr (JObj [(''error'', JStr ''Model is loading'')])\<rparr>"

definition claude_answer :: fetch_result where
  "claude_answer =
     Resolved \<lparr>up_status = 200, up_text = [],
               up_json = Inr (JObj [(''content'',
                                     JArr [JObj [(''type'', JStr ''text''),
                                                 (''text'', JStr '' Who goes there? '')]])])\<rparr>"

definition hf_answer :: fetch_result where
  "hf_answer =
     Resolved \<lparr>up_status = 200, up_text = [],
               up_json = Inr (JArr [JObj [(''generated_text'', JStr '' Who goes there? '')]])\<rparr>"

text \<open>A conversation of twenty user messages, numbered in order, and the request that carries it.\<close>

definition numbered_message :: "string \<Rightarrow> jsvalue" where
  "numbered_message s = JObj [(''role'', JStr ''user''), (''content'', JStr s)]"

definition twenty_messages :: "jsvalue list" where
  "twenty_messages =
     map numbered_message
       [''turn 1'', ''turn 2'', ''turn 3'', ''turn 4'', ''turn 5'', ''turn 6'', ''turn 7'', ''turn 8'', ''turn 9'', ''turn 10'',
        ''turn 11'', ''turn 12'', ''turn 13'', ''turn 14'', ''turn 15'', ''turn 16'', ''turn 17'', ''turn 18'', ''turn 19'', ''turn 20'']"

definition twenty_request :: request where
  "twenty_request =
     \<lparr>x_demo_password = Some ''echoes2025'',
      body = JObj [(''messages'', JArr twenty_messages)]\<rparr>"

text \<open>
  An upstream answer with status 200 whose body has none of the three shapes, and an
  upstream that gives it on the first fetch and a regular answer from then on.
\<close>

definition unrecognized_answer :: fetch_result where
  "unrecognized_answer =
     Resolved \<lparr>up_status = 200, up_text = [],
               up_json = Inr (JObj [(''error'', JStr ''overloaded'')])\<rparr>"

definition unrecognized_then_answer :: "nat \<Rightarrow> fetch_result" where
  "unrecognized_then_answer i = (if i = 0 then unrecognized_answer else hf_answer)"

text \<open>A conversation with two system messages, and one with a \<^verbatim>\<open>null\<close> entry.\<close>

definition two_system_messages :: "jsvalue list" where
  "two_system_messages =
     [JObj [(''role'', JStr ''system''), (''content'', JStr ''You are a ghost.'')],
      hello_message,
      JObj [(''role'', JStr ''system''), (''content'', JStr ''Answer in verse.'')]]"

definition null_entry_messages :: "jsvalue list" where
  "null_entry_messages = [hello_message, JNull]"

text \<open>A message of a role that is none of the three, and a conversation that holds it.\<close>

definition tool_message :: jsvalue where
  "tool_message = JObj [(''role'', JStr ''tool''), (''content'', JStr ''42'')]"

text \<open>Bodies of \<^verbatim>\<open>POST /api/verify\<close>: the right password, a wrong one, an empty one, none.\<close>

definition verify_request :: "jsvalue \<Rightarrow> request" where
  "verify_request b = \<lparr>x_demo_password = None, body = b\<rparr>"

definition right_password :: request where
  "right_password = verify_request (JObj [(''password'', JStr ''echoes2025'')])"

definition wrong_password :: request where
  "wrong_password = verify_request (JObj [(''password'', JStr ''letmein'')])"

definition empty_password :: request where
  "empty_password = verify_request (JObj [(''password'', JStr [])])"

definition no_password :: request where
  "no_password = verify_request (JObj [])"

text \<open>
  Chat requests with the right password that do not reach the adapter: one without a parsed
  body, one whose body has no \<^verbatim>\<open>messages\<close>, and one whose only message is \<^verbatim>\<open>null\<close>.
\<close>

definition bodyless_request :: request where
  "bodyless_request = \<lparr>x_demo_password = Some ''echoes2025'', body = JUndefined\<rparr>"

definition no_messages_request :: request where
  "no_messages_request = \<lparr>x_demo_password = Some ''echoes2025'', body = JObj []\<rparr>"

definition null_message_request :: request where
  "null_message_request =
     \<lparr>x_demo_password = Some ''echoes2025'', body = JObj [(''messages'', JArr [JNull])]\<rparr>"

section \<open>Properties of the quota store\<close>

lemma resetDailyCounter_count_nonneg:
  "0 \<le> dailyRequestCount st \<Longrightarrow> 0 \<le> dailyRequestCount (resetDailyCounter clk st)"
  by (simp add: resetDailyCounter_def)

lemma resetDailyCounter_limiter_store [simp]:
  "limiter_store (resetDailyCounter clk st) = limiter_store st"
  by (simp add: resetDailyCounter_def)

lemma resetDailyCounter_idem:
  "today clk' = today clk \<Longrightarrow>
   resetDailyCounter clk' (resetDailyCounter clk st) = resetDailyCounter clk st"
  by (simp add: resetDailyCounter_def)

lemma health_state: "snd (health provider cfg clk st) = resetDailyCounter clk st"
  by (simp add: health_def Let_def)

lemma health_response:
  "fst (health provider cfg clk st)
     = \<lparr>status = 200,
        json = JObj [(''status'', JStr ''online''),
                     (''demoActive'', JBool (isDemoActive cfg clk)),
                     (''requestsToday'', JNum (dailyRequestCount (resetDailyCounter clk st))),
                     (''dailyLimit'', dailyLimit_json cfg),
                     (''remainingToday'',
                        remaining cfg (dailyRequestCount (resetDailyCounter clk st))),
                     (''aiProvider'', JStr provider)]\<rparr>"
  by (simp add: health_def Let_def)

text \<open>
  Claim C9. \<^verbatim>\<open>GET /health\<close>, in both files, answers from every process state and
  configuration (the route has no middleware, so neither the password nor the rate limiter
  is consulted) with status 200 and the status body: \<^verbatim>\<open>status: 'online'\<close>, whether the
  demo is active at the time of the request, the counter and what remains of the daily
  limit after the lazy day reset, the limit, and the provider label of the file. The state
  it leaves is exactly the one \<^verbatim>\<open>resetDailyCounter\<close> leaves: the limiter's store is
  untouched and the counter is either kept or, on a new day, set to zero; it is never
  incremented.
\<close>

theorem health_always_online:
  "health_claude cfg clk st
     = (\<lparr>status = 200,
         json = JObj [(''status'', JStr ''online''),
                      (''demoActive'', JBool (isDemoActive cfg clk)),
                      (''requestsToday'', JNum (dailyRequestCount (resetDailyCounter clk st))),
                      (''dailyLimit'', dailyLimit_json cfg),
                      (''remainingToday'',
                         remaining cfg (dailyRequestCount (resetDailyCounter clk st))),
                      (''aiProvider'', JStr ''Anthropic Claude 3.5 Haiku'')]\<rparr>,
        resetDailyCounter clk st)
   \<and> health_hf cfg clk st
     = (\<lparr>status = 200,
         json = JObj [(''status'', JStr ''online''),
                      (''demoActive'', JBool (isDemoActive cfg clk)),
                      (''requestsToday'', JNum (dailyRequestCount (resetDailyCounter clk st))),
                      (''dailyLimit'', dailyLimit_json cfg),
                      (''remainingToday'',
                         remaining cfg (dailyRequestCount (resetDailyCounter clk st))),
                      (''aiProvider'', JStr ''Hugging Face (FREE)'')]\<rparr>,
        resetDailyCounter clk st)
   \<and> isDemoActive cfg clk
       = (case HACKATHON_END_DATE cfg of None \<Rightarrow> False | Some e \<Rightarrow> now clk \<le> e)
   \<and> dailyLimit_json cfg = (case DAILY_LIMIT cfg of None \<Rightarrow> JNull | Some l \<Rightarrow> JNum l)
   \<and> remaining cfg (dailyRequestCount (resetDailyCounter clk st))
       = (case DAILY_LIMIT cfg of
            None \<Rightarrow> JNull
          | Some l \<Rightarrow> JNum (max 0 (l - dailyRequestCount (resetDailyCounter clk st))))
   \<and> limiter_store (resetDailyCounter clk st) = limiter_store st
   \<and> dailyRequestCount (resetDailyCounter clk st)
       = (if today clk = lastResetDate st then dailyRequestCount st else 0)
   \<and> lastResetDate (resetDailyCounter clk st) = today clk"
proof -
  have c: "health_claude cfg clk st
      = (fst (health ''Anthropic Claude 3.5 Haiku'' cfg clk st), resetDailyCounter clk st)"
    unfolding health_claude_def by (simp add: prod_eq_iff health_state)
  have h: "health_hf cfg clk st
      = (fst (health ''Hugging Face (FREE)'' cfg clk st), resetDailyCounter clk st)"
    unfolding health_hf_def by (simp add: prod_eq_iff health_state)
  have body: "isDemoActive cfg clk
       = (case HACKATHON_END_DATE cfg of None \<Rightarrow> False | Some e \<Rightarrow> now clk \<le> e)
     \<and> dailyLimit_json cfg = (case DAILY_LIMIT cfg of None \<Rightarrow> JNull | Some l \<Rightarrow> JNum l)
     \<and> remaining cfg (dailyRequestCount (resetDailyCounter clk st))
       = (case DAILY_LIMIT cfg of
            None \<Rightarrow> JNull
          | Some l \<Rightarrow> JNum (max 0 (l - dailyRequestCount (resetDailyCounter clk st))))"
    by (simp add: isDemoActive_def dailyLimit_json_def remaining_def)
  have frame: "limiter_store (resetDailyCounter clk st) = limiter_store st
     \<and> dailyRequestCount (resetDailyCounter clk st)
       = (if today clk = lastResetDate st then dailyRequestCount st else 0)
     \<and> lastResetDate (resetDailyCounter clk st) = today clk"
    by (simp add: resetDailyCounter_def)
  show ?thesis
    unfolding c h health_response using body frame by blast
qed

theorem health_always_online_witness:
  "health_claude default_config tuesday monday_state
     = (\<lparr>status = 200,
         json = JObj [(''status'', JStr ''online''), (''demoActive'', JBool True),
                      (''requestsToday'', JNum 0), (''dailyLimit'', JNum 200),
                      (''remainingToday'', JNum 200),
                      (''aiProvider'', JStr ''Anthropic Claude 3.5 Haiku'')]\<rparr>,
        \<lparr>dailyRequestCount = 0, lastResetDate = ''Tue Nov 04 2025'', limiter_store = ()\<rparr>)
   \<and> health_hf default_config_hf new_year
        \<lparr>dailyRequestCount = 7, lastResetDate = ''Thu Jan 01 2026'', limiter_store = ()\<rparr>
     = (\<lparr>status = 200,
         json = JObj [(''status'', JStr ''online''), (''demoActive'', JBool False),
                      (''requestsToday'', JNum 7), (''dailyLimit'', JNum 500),
                      (''remainingToday'', JNum 493),
                      (''aiProvider'', JStr ''Hugging Face (FREE)'')]\<rparr>,
        \<lparr>dailyRequestCount = 7, lastResetDate = ''Thu Jan 01 2026'', limiter_store = ()\<rparr>)"
  using health_always_online [where cfg = default_config and clk = tuesday and st = monday_state]
        health_always_online [where cfg = default_config_hf and clk = new_year
          and st = "\<lparr>dailyRequestCount = 7, lastResetDate = ''Thu Jan 01 2026'',
                     limiter_store = ()\<rparr>"]
  by (simp add: default_config_def default_config_hf_def tuesday_def new_year_def
        monday_state_def resetDailyCounter_def)

section \<open>The chat route, gate by gate\<close>

lemma validatePassword_cases:
  "validatePassword cfg req = None \<or> validatePassword cfg req = Some auth_error_response"
  by (simp add: validatePassword_def split: option.split)

lemma resetDailyCounter_after_limiter_count [simp]:
  "dailyRequestCount (resetDailyCounter clk (st\<lparr>limiter_store := s\<rparr>))
     = dailyRequestCount (resetDailyCounter clk st)"
  by (simp add: resetDailyCounter_def)

lemma chat_route_auth:
  "validatePassword cfg req \<noteq> None \<Longrightarrow>
   chat_route handler cfg limiter clk upstream req st
     = \<lparr>response = auth_error_response, state = st, trace = []\<rparr>"
  using validatePassword_cases [of cfg req] by (auto simp: chat_route_def)

lemma chat_route_rate:
  "validatePassword cfg req = None \<Longrightarrow> rate_limited limiter req st \<Longrightarrow>
   chat_route handler cfg limiter clk upstream req st
     = \<lparr>response = rate_limited_response, state = after_limiter limiter req st, trace = []\<rparr>"
  by (cases "limiter (limiter_store st) req") (simp add: chat_route_def chatLimiter_def)

lemma chat_route_daily:
  "validatePassword cfg req = None \<Longrightarrow> \<not> rate_limited limiter req st \<Longrightarrow>
   quota_exhausted cfg clk st \<Longrightarrow>
   chat_route handler cfg limiter clk upstream req st
     = \<lparr>response = daily_limit_response, state = after_gates limiter clk req st, trace = []\<rparr>"
  by (cases "limiter (limiter_store st) req")
     (simp add: chat_route_def chatLimiter_def dailyLimitMiddleware_def Let_def)

lemma chat_route_handler:
  "validatePassword cfg req = None \<Longrightarrow> \<not> rate_limited limiter req st \<Longrightarrow>
   \<not> quota_exhausted cfg clk st \<Longrightarrow>
   chat_route handler cfg limiter clk upstream req st
     = handler clk upstream req (after_gates limiter clk req st)"
  by (cases "limiter (limiter_store st) req")
     (simp add: chat_route_def chatLimiter_def dailyLimitMiddleware_def Let_def)

lemma finish_chat_threw:
  "finish_chat cfg provider st (Inl e, tr)
     = \<lparr>response = error_response cfg e, state = st, trace = tr\<rparr>"
  by (simp add: finish_chat_def)

lemma finish_chat_string:
  "finish_chat cfg provider st (Inr (JStr s), tr)
     = \<lparr>response = \<lparr>status = 200,
                     json = JObj [(''message'', JStr (trim s)), (''isDemoMode'', JBool True),
                                  (''aiProvider'', JStr provider),
                                  (''requestsRemaining'', remaining cfg (dailyRequestCount st + 1))]\<rparr>,
        state = st\<lparr>dailyRequestCount := dailyRequestCount st + 1\<rparr>, trace = tr\<rparr>"
  by (simp add: finish_chat_def Let_def)

lemma finish_chat_count:
  "dailyRequestCount (state (finish_chat cfg provider st res)) = dailyRequestCount st
   \<or> dailyRequestCount (state (finish_chat cfg provider st res)) = dailyRequestCount st + 1"
  by (cases res) (auto simp: finish_chat_def Let_def split: sum.splits)

lemma finish_chat_status:
  "status (response (finish_chat cfg provider st res)) = 200
   \<or> status (response (finish_chat cfg provider st res)) = 500"
  by (cases res) (auto simp: finish_chat_def Let_def error_response_def split: sum.splits)

lemma finish_chat_trace: "trace (finish_chat cfg provider st res) = snd res"
  by (cases res) (auto simp: finish_chat_def Let_def split: sum.splits)

lemma chat_handler_claude_count:
  "dailyRequestCount (state (chat_handler_claude cfg clk up req st)) = dailyRequestCount st
   \<or> dailyRequestCount (state (chat_handler_claude cfg clk up req st)) = dailyRequestCount st + 1"
  using finish_chat_count [of cfg _ st]
  by (auto simp: chat_handler_claude_def Let_def split: sum.splits)

lemma chat_handler_hf_count:
  "dailyRequestCount (state (chat_handler_hf cfg clk up req st)) = dailyRequestCount st
   \<or> dailyRequestCount (state (chat_handler_hf cfg clk up req st)) = dailyRequestCount st + 1"
  using finish_chat_count [of cfg _ st]
  by (auto simp: chat_handler_hf_def Let_def split: sum.splits)

lemma chat_route_count_nonneg:
  assumes h: "\<And>st'. 0 \<le> dailyRequestCount st' \<Longrightarrow>
                 0 \<le> dailyRequestCount (state (handler clk upstream req st'))"
    and "0 \<le> dailyRequestCount st"
  shows "0 \<le> dailyRequestCount (state (chat_route handler cfg limiter clk upstream req st))"
proof -
  have "0 \<le> dailyRequestCount (after_gates limiter clk req st)"
    using assms(2) by (simp add: resetDailyCounter_def)
  then have "0 \<le> dailyRequestCount (state (handler clk upstream req (after_gates limiter clk req st)))"
    by (rule h)
  then show ?thesis
    using assms(2)
    by (cases "limiter (limiter_store st) req")
       (auto simp: chat_route_def chatLimiter_def dailyLimitMiddleware_def Let_def
             resetDailyCounter_count_nonneg split: option.splits)
qed

section \<open>The counter stays a non-negative integer\<close>

lemma verify_count_nonneg:
  "0 \<le> dailyRequestCount st \<Longrightarrow> verify extra cfg clk req st = Inr (r, st') \<Longrightarrow>
   0 \<le> dailyRequestCount st'"
  by (cases "destructure (body req) ''password''")
     (auto simp: verify_def Let_def resetDailyCounter_def split: if_splits)

lemma chat_claude_count_nonneg:
  "0 \<le> dailyRequestCount st \<Longrightarrow>
   0 \<le> dailyRequestCount (state (chat_claude cfg limiter clk up req st))"
  unfolding chat_claude_def
proof (rule chat_route_count_nonneg)
  fix st' :: "'a server_state"
  assume "0 \<le> dailyRequestCount st'"
  then show "0 \<le> dailyRequestCount (state (chat_handler_claude cfg clk up req st'))"
    using chat_handler_claude_count [of cfg clk up req st'] by auto
qed

lemma chat_hf_count_nonneg:
  "0 \<le> dailyRequestCount st \<Longrightarrow>
   0 \<le> dailyRequestCount (state (chat_hf cfg limiter clk up req st))"
  unfolding chat_hf_def
proof (rule chat_route_count_nonneg)
  fix st' :: "'a server_state"
  assume "0 \<le> dailyRequestCount st'"
  then show "0 \<le> dailyRequestCount (state (chat_handler_hf cfg clk up req st'))"
    using chat_handler_hf_count [of cfg clk up req st'] by auto
qed

text \<open>
  Claim C8. \<^verbatim>\<open>resetDailyCounter\<close> sets the counter to zero and stores the current day when
  the current day differs from the stored one, and changes nothing when it does not; a
  second check on the same day therefore finds the stored day current and changes nothing,
  so the counter is zeroed once per change of day. A counter that is not negative stays so
  under the reset check and under every route of both files.
\<close>

theorem resetDailyCounter_lazy_reset:
  "(today clk \<noteq> lastResetDate st \<longrightarrow>
      resetDailyCounter clk st = st\<lparr>dailyRequestCount := 0, lastResetDate := today clk\<rparr>)
   \<and> (today clk = lastResetDate st \<longrightarrow> resetDailyCounter clk st = st)
   \<and> (today clk' = today clk \<longrightarrow>
        resetDailyCounter clk' (resetDailyCounter clk st) = resetDailyCounter clk st)
   \<and> (0 \<le> dailyRequestCount st \<longrightarrow>
        0 \<le> dailyRequestCount (resetDailyCounter clk st)
        \<and> 0 \<le> dailyRequestCount (snd (health_claude cfg clk st))
        \<and> 0 \<le> dailyRequestCount (snd (health_hf cfg clk st))
        \<and> (\<forall>r st'. verify_claude cfg clk req st = Inr (r, st') \<longrightarrow> 0 \<le> dailyRequestCount st')
        \<and> (\<forall>r st'. verify_hf cfg clk req st = Inr (r, st') \<longrightarrow> 0 \<le> dailyRequestCount st')
        \<and> 0 \<le> dailyRequestCount (state (chat_claude cfg limiter clk upstream1 req st))
        \<and> 0 \<le> dailyRequestCount (state (chat_hf cfg limiter clk upstream2 req st)))"
proof -
  have reset: "today clk \<noteq> lastResetDate st \<longrightarrow>
      resetDailyCounter clk st = st\<lparr>dailyRequestCount := 0, lastResetDate := today clk\<rparr>"
    by (simp add: resetDailyCounter_def)
  have keep: "today clk = lastResetDate st \<longrightarrow> resetDailyCounter clk st = st"
    by (simp add: resetDailyCounter_def)
  have once: "today clk' = today clk \<longrightarrow>
        resetDailyCounter clk' (resetDailyCounter clk st) = resetDailyCounter clk st"
    by (simp add: resetDailyCounter_idem)
  have inv: "0 \<le> dailyRequestCount (resetDailyCounter clk st)
        \<and> 0 \<le> dailyRequestCount (snd (health_claude cfg clk st))
        \<and> 0 \<le> dailyRequestCount (snd (health_hf cfg clk st))
        \<and> (\<forall>r st'. verify_claude cfg clk req st = Inr (r, st') \<longrightarrow> 0 \<le> dailyRequestCount st')
        \<and> (\<forall>r st'. verify_hf cfg clk req st = Inr (r, st') \<longrightarrow> 0 \<le> dailyRequestCount st')
        \<and> 0 \<le> dailyRequestCount (state (chat_claude cfg limiter clk upstream1 req st))
        \<and> 0 \<le> dailyRequestCount (state (chat_hf cfg limiter clk upstream2 req st))"
    if nonneg: "0 \<le> dailyRequestCount st"
  proof -
    have r: "0 \<le> dailyRequestCount (resetDailyCounter clk st)"
      using nonneg by (rule resetDailyCounter_count_nonneg)
    have h1: "0 \<le> dailyRequestCount (snd (health_claude cfg clk st))"
      using r by (simp add: health_claude_def health_state)
    have h2: "0 \<le> dailyRequestCount (snd (health_hf cfg clk st))"
      using r by (simp add: health_hf_def health_state)
    have v1: "\<forall>r st'. verify_claude cfg clk req st = Inr (r, st') \<longrightarrow> 0 \<le> dailyRequestCount st'"
      using nonneg unfolding verify_claude_def by (blast intro: verify_count_nonneg)
    have v2: "\<forall>r st'. verify_hf cfg clk req st = Inr (r, st') \<longrightarrow> 0 \<le> dailyRequestCount st'"
      using nonneg unfolding verify_hf_def by (blast intro: verify_count_nonneg)
    show ?thesis
      using r h1 h2 v1 v2 chat_claude_count_nonneg [OF nonneg] chat_hf_count_nonneg [OF nonneg]
      by blast
  qed
  show ?thesis using reset keep once inv by blast
qed

theorem resetDailyCounter_lazy_reset_witness:
  "resetDailyCounter tuesday monday_state
     = \<lparr>dailyRequestCount = 0, lastResetDate = ''Tue Nov 04 2025'', limiter_store = ()\<rparr>
   \<and> resetDailyCounter tuesday (resetDailyCounter tuesday monday_state)
       = resetDailyCounter tuesday monday_state
   \<and> resetDailyCounter monday monday_state = monday_state
   \<and> 0 \<le> dailyRequestCount monday_state
   \<and> 0 \<le> dailyRequestCount (resetDailyCounter tuesday monday_state)"
  using resetDailyCounter_lazy_reset [of tuesday monday_state tuesday]
        resetDailyCounter_lazy_reset [of monday monday_state]
  by (simp add: monday_state_def monday_def tuesday_def resetDailyCounter_def)

section \<open>The order of the gates\<close>

lemma chat_handler_claude_expired:
  "\<not> isDemoActive cfg clk \<Longrightarrow>
   chat_handler_claude cfg clk up req st
     = \<lparr>response = demo_expired_response, state = st, trace = []\<rparr>"
  by (simp add: chat_handler_claude_def)

lemma chat_handler_hf_expired:
  "\<not> isDemoActive cfg clk \<Longrightarrow>
   chat_handler_hf cfg clk up req st
     = \<lparr>response = demo_expired_response, state = st, trace = []\<rparr>"
  by (simp add: chat_handler_hf_def)

lemma finish_chat_not_403:
  "status (response (finish_chat cfg provider st res)) \<noteq> 403"
  using finish_chat_status [of cfg provider st res] by auto

lemma chat_handler_claude_active:
  "isDemoActive cfg clk \<Longrightarrow> status (response (chat_handler_claude cfg clk up req st)) \<noteq> 403"
  by (auto simp: chat_handler_claude_def Let_def error_response_def invalid_request_response_def
           finish_chat_not_403 split: sum.splits)

lemma chat_handler_hf_active:
  "isDemoActive cfg clk \<Longrightarrow> status (response (chat_handler_hf cfg clk up req st)) \<noteq> 403"
  by (auto simp: chat_handler_hf_def Let_def error_response_def invalid_request_response_def
           finish_chat_not_403 split: sum.splits)

lemma chat_handler_claude_trace:
  "trace (chat_handler_claude cfg clk up req st) \<noteq> [] \<Longrightarrow> isDemoActive cfg clk"
  by (auto simp: chat_handler_claude_def split: if_splits)

lemma chat_handler_hf_trace:
  "trace (chat_handler_hf cfg clk up req st) \<noteq> [] \<Longrightarrow> isDemoActive cfg clk"
  by (auto simp: chat_handler_hf_def split: if_splits)

text \<open>What the route answers, by the first gate that rejects.\<close>

lemma chat_route_cases:
  "(validatePassword cfg req \<noteq> None \<and>
      chat_route handler cfg limiter clk up req st
        = \<lparr>response = auth_error_response, state = st, trace = []\<rparr>)
   \<or> (validatePassword cfg req = None \<and> rate_limited limiter req st \<and>
      chat_route handler cfg limiter clk up req st
        = \<lparr>response = rate_limited_response, state = after_limiter limiter req st, trace = []\<rparr>)
   \<or> (validatePassword cfg req = None \<and> \<not> rate_limited limiter req st \<and>
      quota_exhausted cfg clk st \<and>
      chat_route handler cfg limiter clk up req st
        = \<lparr>response = daily_limit_response, state = after_gates limiter clk req st, trace = []\<rparr>)
   \<or> (validatePassword cfg req = None \<and> \<not> rate_limited limiter req st \<and>
      \<not> quota_exhausted cfg clk st \<and>
      chat_route handler cfg limiter clk up req st
        = handler clk up req (after_gates limiter clk req st))"
  by (cases "validatePassword cfg req = None"; cases "rate_limited limiter req st";
      cases "quota_exhausted cfg clk st")
     (simp_all add: chat_route_auth chat_route_rate chat_route_daily chat_route_handler)

lemma chat_route_403:
  assumes h: "\<And>st'. isDemoActive cfg clk \<Longrightarrow> status (response (handler clk up req st')) \<noteq> 403"
    and "status (response (chat_route handler cfg limiter clk up req st)) = 403"
  shows "validatePassword cfg req = None \<and> \<not> rate_limited limiter req st
         \<and> \<not> quota_exhausted cfg clk st \<and> \<not> isDemoActive cfg clk"
  using chat_route_cases [of cfg req handler limiter clk up st] assms(2)
        h [of "after_gates limiter clk req st"]
  by (auto simp: auth_error_response_def rate_limited_response_def daily_limit_response_def)

lemma chat_route_upstream:
  assumes h: "\<And>st'. trace (handler clk up req st') \<noteq> [] \<Longrightarrow> isDemoActive cfg clk"
    and "trace (chat_route handler cfg limiter clk up req st) \<noteq> []"
  shows "validatePassword cfg req = None \<and> \<not> rate_limited limiter req st
         \<and> \<not> quota_exhausted cfg clk st \<and> isDemoActive cfg clk"
  using chat_route_cases [of cfg req handler limiter clk up st] assms(2)
        h [of "after_gates limiter clk req st"]
  by auto

text \<open>
  Claim C6. In both files a chat request meets the gates in the order authentication, rate
  limit, daily quota, demo window. A gate that rejects decides the response whatever the
  later gates would have said, nothing is sent upstream, and the gates after it are not
  run (the limiter's store is untouched by an authentication failure, the quota store by a
  rate-limit rejection). A 403 is only ever the answer of the demo check after the three
  gates before it have passed, and a request reaches the upstream only when all four
  checks have passed.
\<close>

theorem chat_gates_in_order:
  "(validatePassword cfg req \<noteq> None \<longrightarrow>
      chat_claude cfg limiter clk up1 req st
        = \<lparr>response = auth_error_response, state = st, trace = []\<rparr>
      \<and> chat_hf cfg limiter clk up2 req st
        = \<lparr>response = auth_error_response, state = st, trace = []\<rparr>)
   \<and> (validatePassword cfg req = None \<and> rate_limited limiter req st \<longrightarrow>
      chat_claude cfg limiter clk up1 req st
        = \<lparr>response = rate_limited_response, state = after_limiter limiter req st, trace = []\<rparr>
      \<and> chat_hf cfg limiter clk up2 req st
        = \<lparr>response = rate_limited_response, state = after_limiter limiter req st, trace = []\<rparr>)
   \<and> (validatePassword cfg req = None \<and> \<not> rate_limited limiter req st
        \<and> quota_exhausted cfg clk st \<longrightarrow>
      chat_claude cfg limiter clk up1 req st
        = \<lparr>response = daily_limit_response, state = after_gates limiter clk req st, trace = []\<rparr>
      \<and> chat_hf cfg limiter clk up2 req st
        = \<lparr>response = daily_limit_response, state = after_gates limiter clk req st, trace = []\<rparr>)
   \<and> (validatePassword cfg req = None \<and> \<not> rate_limited limiter req st
        \<and> \<not> quota_exhausted cfg clk st \<and> \<not> isDemoActive cfg clk \<longrightarrow>
      chat_claude cfg limiter clk up1 req st
        = \<lparr>response = demo_expired_response, state = after_gates limiter clk req st, trace = []\<rparr>
      \<and> chat_hf cfg limiter clk up2 req st
        = \<lparr>response = demo_expired_response, state = after_gates limiter clk req st, trace = []\<rparr>)
   \<and> (status (response (chat_claude cfg limiter clk up1 req st)) = 403
        \<or> status (response (chat_hf cfg limiter clk up2 req st)) = 403 \<longrightarrow>
      validatePassword cfg req = None \<and> \<not> rate_limited limiter req st
      \<and> \<not> quota_exhausted cfg clk st \<and> \<not> isDemoActive cfg clk)
   \<and> (trace (chat_claude cfg limiter clk up1 req st) \<noteq> []
        \<or> trace (chat_hf cfg limiter clk up2 req st) \<noteq> [] \<longrightarrow>
      validatePassword cfg req = None \<and> \<not> rate_limited limiter req st
      \<and> \<not> quota_exhausted cfg clk st \<and> isDemoActive cfg clk)"
proof -
  have auth: "validatePassword cfg req \<noteq> None \<longrightarrow>
      chat_claude cfg limiter clk up1 req st
        = \<lparr>response = auth_error_response, state = st, trace = []\<rparr>
      \<and> chat_hf cfg limiter clk up2 req st
        = \<lparr>response = auth_error_response, state = st, trace = []\<rparr>"
    by (simp add: chat_claude_def chat_hf_def chat_route_auth)
  have rate: "validatePassword cfg req = None \<and> rate_limited limiter req st \<longrightarrow>
      chat_claude cfg limiter clk up1 req st
        = \<lparr>response = rate_limited_response, state = after_limiter limiter req st, trace = []\<rparr>
      \<and> chat_hf cfg limiter clk up2 req st
        = \<lparr>response = rate_limited_response, state = after_limiter limiter req st, trace = []\<rparr>"
    by (simp add: chat_claude_def chat_hf_def chat_route_rate)
  have daily: "validatePassword cfg req = None \<and> \<not> rate_limited limiter req st
        \<and> quota_exhausted cfg clk st \<longrightarrow>
      chat_claude cfg limiter clk up1 req st
        = \<lparr>response = daily_limit_response, state = after_gates limiter clk req st, trace = []\<rparr>
      \<and> chat_hf cfg limiter clk up2 req st
        = \<lparr>response = daily_limit_response, state = after_gates limiter clk req st, trace = []\<rparr>"
    by (simp add: chat_claude_def chat_hf_def chat_route_daily)
  have demo: "validatePassword cfg req = None \<and> \<not> rate_limited limiter req st
        \<and> \<not> quota_exhausted cfg clk st \<and> \<not> isDemoActive cfg clk \<longrightarrow>
      chat_claude cfg limiter clk up1 req st
        = \<lparr>response = demo_expired_response, state = after_gates limiter clk req st, trace = []\<rparr>
      \<and> chat_hf cfg limiter clk up2 req st
        = \<lparr>response = demo_expired_response, state = after_gates limiter clk req st, trace = []\<rparr>"
    by (simp add: chat_claude_def chat_hf_def chat_route_handler
                  chat_handler_claude_expired chat_handler_hf_expired)
  have only403: "status (response (chat_claude cfg limiter clk up1 req st)) = 403
        \<or> status (response (chat_hf cfg limiter clk up2 req st)) = 403 \<longrightarrow>
      validatePassword cfg req = None \<and> \<not> rate_limited limiter req st
      \<and> \<not> quota_exhausted cfg clk st \<and> \<not> isDemoActive cfg clk"
    unfolding chat_claude_def chat_hf_def
    using chat_route_403 [of cfg clk "chat_handler_claude cfg" up1 req limiter st]
          chat_route_403 [of cfg clk "chat_handler_hf cfg" up2 req limiter st]
          chat_handler_claude_active [of cfg clk up1 req] chat_handler_hf_active [of cfg clk up2 req]
    by blast
  have upstream: "trace (chat_claude cfg limiter clk up1 req st) \<noteq> []
        \<or> trace (chat_hf cfg limiter clk up2 req st) \<noteq> [] \<longrightarrow>
      validatePassword cfg req = None \<and> \<not> rate_limited limiter req st
      \<and> \<not> quota_exhausted cfg clk st \<and> isDemoActive cfg clk"
    unfolding chat_claude_def chat_hf_def
    using chat_route_upstream [of "chat_handler_claude cfg" clk up1 req cfg limiter st]
          chat_route_upstream [of "chat_handler_hf cfg" clk up2 req cfg limiter st]
          chat_handler_claude_trace [of cfg clk up1 req] chat_handler_hf_trace [of cfg clk up2 req]
    by blast
  show ?thesis using auth rate daily demo only403 upstream by blast
qed

text \<open>The definitions of the model that a concrete request is evaluated with.\<close>

lemmas route_defs =
  chat_claude_def chat_hf_def chat_route_def validatePassword_def DEMO_PASSWORD_def
  chatLimiter_def dailyLimitMiddleware_def resetDailyCounter_def limit_reached_def
  isDemoActive_def chat_handler_claude_def chat_handler_hf_def destructure_def
  invalid_messages_def slice_last_def finish_chat_def remaining_def

lemmas adapter_defs =
  callClaude_def claude_request_def first_content_text_def ok_def
  callHuggingFace_def attempt_def normalize_def first_generated_text_def buildPrompt_def

theorem chat_gates_in_order_witness:
  "validatePassword default_config anonymous_request \<noteq> None
   \<and> chat_claude default_config never_over monday claude_answer anonymous_request monday_state
       = \<lparr>response = auth_error_response, state = monday_state, trace = []\<rparr>
   \<and> validatePassword default_config hello_request = None
   \<and> rate_limited always_over hello_request monday_state
   \<and> chat_hf default_config always_over monday (\<lambda>i. hf_answer) hello_request monday_state
       = \<lparr>response = rate_limited_response, state = monday_state, trace = []\<rparr>
   \<and> \<not> rate_limited never_over hello_request exhausted_state
   \<and> quota_exhausted default_config monday exhausted_state
   \<and> chat_claude default_config never_over monday claude_answer hello_request exhausted_state
       = \<lparr>response = daily_limit_response, state = exhausted_state, trace = []\<rparr>
   \<and> \<not> quota_exhausted default_config new_year monday_state
   \<and> \<not> isDemoActive default_config new_year
   \<and> chat_hf default_config never_over new_year (\<lambda>i. hf_answer) hello_request monday_state
       = \<lparr>response = demo_expired_response,
          state = \<lparr>dailyRequestCount = 0, lastResetDate = ''Thu Jan 01 2026'', limiter_store = ()\<rparr>,
          trace = []\<rparr>
   \<and> status (response (chat_hf default_config never_over new_year (\<lambda>i. hf_answer)
                          hello_request monday_state)) = 403
   \<and> trace (chat_claude default_config never_over monday claude_answer hello_request monday_state)
       \<noteq> []
   \<and> isDemoActive default_config monday"
  using chat_gates_in_order [where cfg = default_config and req = anonymous_request
          and limiter = never_over and clk = monday and ?up1.0 = claude_answer
          and ?up2.0 = "\<lambda>i. hf_answer" and st = monday_state]
        chat_gates_in_order [where cfg = default_config and req = hello_request
          and limiter = always_over and clk = monday and ?up1.0 = claude_answer
          and ?up2.0 = "\<lambda>i. hf_answer" and st = monday_state]
        chat_gates_in_order [where cfg = default_config and req = hello_request
          and limiter = never_over and clk = monday and ?up1.0 = claude_answer
          and ?up2.0 = "\<lambda>i. hf_answer" and st = exhausted_state]
        chat_gates_in_order [where cfg = default_config and req = hello_request
          and limiter = never_over and clk = new_year and ?up1.0 = claude_answer
          and ?up2.0 = "\<lambda>i. hf_answer" and st = monday_state]
        chat_gates_in_order [where cfg = default_config and req = hello_request
          and limiter = never_over and clk = monday and ?up1.0 = claude_answer
          and ?up2.0 = "\<lambda>i. hf_answer" and st = monday_state]
  by (simp add: default_config_def anonymous_request_def hello_request_def hello_message_def
        never_over_def always_over_def monday_def new_year_def monday_state_def
        exhausted_state_def claude_answer_def hf_answer_def route_defs adapter_defs
        demo_expired_response_def)

section \<open>What the adapters are given\<close>

lemma slice_last_suffix: "\<exists>older. xs = older @ slice_last n xs"
proof
  show "xs = take (length xs - n) xs @ slice_last n xs"
    by (simp add: slice_last_def)
qed

lemma length_slice_last: "length (slice_last n xs) = min n (length xs)"
  by (simp add: slice_last_def)

lemma slice_last_nonempty: "xs \<noteq> [] \<Longrightarrow> 0 < n \<Longrightarrow> slice_last n xs \<noteq> []"
  by (cases xs) (auto simp: slice_last_def)

lemma callClaude_trace:
  "claude_request ms = Inr rq \<Longrightarrow> snd (callClaude up ms) = [Fetch rq]"
  by (simp add: callClaude_def split: fetch_result.split)

lemma snd_after [simp]: "snd (after evs res) = evs @ snd res"
  by (cases res) simp

lemma fst_after [simp]: "fst (after evs res) = fst res"
  by (cases res) simp

lemma hf_loop_events:
  "ev \<in> set (snd (hf_loop up p retries i)) \<Longrightarrow>
   ev = Fetch (HFRequest p) \<or> ev = Wait 10000 \<or> ev = Wait 2000"
proof (induction up p retries i rule: hf_loop.induct)
  case (1 up p retries i)
  show ?case
  proof (cases "i < retries")
    case False
    with "1.prems" show ?thesis by (simp add: hf_loop.simps [of up p retries i])
  next
    case True
    show ?thesis
    proof (cases "attempt (up i)")
      case None
      with True "1.prems" "1.IH"(1) show ?thesis
        by (auto simp: hf_loop.simps [of up p retries i])
    next
      case (Some res)
      show ?thesis
      proof (cases res)
        case (Inr v)
        with True Some "1.prems" show ?thesis
          by (simp add: hf_loop.simps [of up p retries i])
      next
        case (Inl e)
        with True Some "1.prems" "1.IH"(2) show ?thesis
          by (auto simp: hf_loop.simps [of up p retries i] split: if_splits)
      qed
    qed
  qed
qed

lemma hf_loop_first_event:
  "i < retries \<Longrightarrow> \<exists>rest. snd (hf_loop up p retries i) = Fetch (HFRequest p) # rest"
  by (simp add: hf_loop.simps [of up p retries i] split: option.split sum.split)

lemma chat_claude_passes:
  assumes "validatePassword cfg req = None" "\<not> rate_limited limiter req st"
    "\<not> quota_exhausted cfg clk st" "isDemoActive cfg clk"
    "destructure (body req) ''messages'' = Inr (JArr ms)" "ms \<noteq> []"
  shows "chat_claude cfg limiter clk up req st
     = finish_chat cfg ''Claude 3.5 Haiku'' (after_gates limiter clk req st)
         (callClaude up (slice_last 12 ms))"
  using assms
  by (simp add: chat_claude_def chat_route_handler chat_handler_claude_def invalid_messages_def)

lemma chat_hf_passes:
  assumes "validatePassword cfg req = None" "\<not> rate_limited limiter req st"
    "\<not> quota_exhausted cfg clk st" "isDemoActive cfg clk"
    "destructure (body req) ''messages'' = Inr (JArr ms)" "ms \<noteq> []"
    "buildPrompt (slice_last 8 ms) = Inr prompt"
  shows "chat_hf cfg limiter clk up req st
     = finish_chat cfg ''Hugging Face'' (after_gates limiter clk req st)
         (callHuggingFace up prompt 3)"
  using assms
  by (simp add: chat_hf_def chat_route_handler chat_handler_hf_def invalid_messages_def)

lemma chat_hf_prompt_error:
  assumes "validatePassword cfg req = None" "\<not> rate_limited limiter req st"
    "\<not> quota_exhausted cfg clk st" "isDemoActive cfg clk"
    "destructure (body req) ''messages'' = Inr (JArr ms)" "ms \<noteq> []"
    "buildPrompt (slice_last 8 ms) = Inl e"
  shows "chat_hf cfg limiter clk up req st
     = \<lparr>response = error_response cfg e, state = after_gates limiter clk req st, trace = []\<rparr>"
  using assms
  by (simp add: chat_hf_def chat_route_handler chat_handler_hf_def invalid_messages_def)

text \<open>
  Claim C7. \<^verbatim>\<open>messages.slice(-n)\<close> is the last \<open>min n (length messages)\<close> entries of the
  array, in their order. When a chat request has passed the four gates and carries a
  non-empty array, \<^verbatim>\<open>server.js\<close> calls \<^verbatim>\<open>callClaude\<close> with the last 12 entries, and the one
  request it sends upstream is the one built from them; \<^verbatim>\<open>part_000\<close> calls
  \<^verbatim>\<open>callHuggingFace\<close> with the prompt built from the last 8 entries, and every request it
  sends upstream carries that prompt.
\<close>

theorem adapter_receives_most_recent_messages:
  "(\<exists>older. ms = older @ slice_last n ms)
   \<and> length (slice_last n ms) = min n (length ms)
   \<and> (validatePassword cfg req = None \<and> \<not> rate_limited limiter req st
        \<and> \<not> quota_exhausted cfg clk st \<and> isDemoActive cfg clk
        \<and> destructure (body req) ''messages'' = Inr (JArr ms) \<and> ms \<noteq> [] \<longrightarrow>
      chat_claude cfg limiter clk up1 req st
        = finish_chat cfg ''Claude 3.5 Haiku'' (after_gates limiter clk req st)
            (callClaude up1 (slice_last 12 ms))
      \<and> (\<forall>rq. claude_request (slice_last 12 ms) = Inr rq \<longrightarrow>
            trace (chat_claude cfg limiter clk up1 req st) = [Fetch rq])
      \<and> (\<forall>prompt. buildPrompt (slice_last 8 ms) = Inr prompt \<longrightarrow>
            chat_hf cfg limiter clk up2 req st
              = finish_chat cfg ''Hugging Face'' (after_gates limiter clk req st)
                  (callHuggingFace up2 prompt 3)
            \<and> (\<exists>rest. trace (chat_hf cfg limiter clk up2 req st)
                         = Fetch (HFRequest prompt) # rest)
            \<and> (\<forall>ev \<in> set (trace (chat_hf cfg limiter clk up2 req st)).
                  ev = Fetch (HFRequest prompt) \<or> ev = Wait 10000 \<or> ev = Wait 2000)))"
proof -
  have suffix: "\<exists>older. ms = older @ slice_last n ms"
    by (rule slice_last_suffix)
  have len: "length (slice_last n ms) = min n (length ms)"
    by (rule length_slice_last)
  have handlers:
    "chat_claude cfg limiter clk up1 req st
        = finish_chat cfg ''Claude 3.5 Haiku'' (after_gates limiter clk req st)
            (callClaude up1 (slice_last 12 ms))
      \<and> (\<forall>rq. claude_request (slice_last 12 ms) = Inr rq \<longrightarrow>
            trace (chat_claude cfg limiter clk up1 req st) = [Fetch rq])
      \<and> (\<forall>prompt. buildPrompt (slice_last 8 ms) = Inr prompt \<longrightarrow>
            chat_hf cfg limiter clk up2 req st
              = finish_chat cfg ''Hugging Face'' (after_gates limiter clk req st)
                  (callHuggingFace up2 prompt 3)
            \<and> (\<exists>rest. trace (chat_hf cfg limiter clk up2 req st)
                         = Fetch (HFRequest prompt) # rest)
            \<and> (\<forall>ev \<in> set (trace (chat_hf cfg limiter clk up2 req st)).
                  ev = Fetch (HFRequest prompt) \<or> ev = Wait 10000 \<or> ev = Wait 2000))"
    if pass: "validatePassword cfg req = None" "\<not> rate_limited limiter req st"
        "\<not> quota_exhausted cfg clk st" "isDemoActive cfg clk"
        "destructure (body req) ''messages'' = Inr (JArr ms)" "ms \<noteq> []"
  proof -
    have c: "chat_claude cfg limiter clk up1 req st
        = finish_chat cfg ''Claude 3.5 Haiku'' (after_gates limiter clk req st)
            (callClaude up1 (slice_last 12 ms))"
      using pass by (rule chat_claude_passes)
    have ct: "\<forall>rq. claude_request (slice_last 12 ms) = Inr rq \<longrightarrow>
            trace (chat_claude cfg limiter clk up1 req st) = [Fetch rq]"
      by (simp add: c finish_chat_trace callClaude_trace)
    have h: "chat_hf cfg limiter clk up2 req st
              = finish_chat cfg ''Hugging Face'' (after_gates limiter clk req st)
                  (callHuggingFace up2 prompt 3)
            \<and> (\<exists>rest. trace (chat_hf cfg limiter clk up2 req st)
                         = Fetch (HFRequest prompt) # rest)
            \<and> (\<forall>ev \<in> set (trace (chat_hf cfg limiter clk up2 req st)).
                  ev = Fetch (HFRequest prompt) \<or> ev = Wait 10000 \<or> ev = Wait 2000)"
      if p: "buildPrompt (slice_last 8 ms) = Inr prompt" for prompt
    proof -
      have eq: "chat_hf cfg limiter clk up2 req st
              = finish_chat cfg ''Hugging Face'' (after_gates limiter clk req st)
                  (callHuggingFace up2 prompt 3)"
        using pass p by (rule chat_hf_passes)
      have tr: "trace (chat_hf cfg limiter clk up2 req st) = snd (hf_loop up2 prompt 3 0)"
        by (simp add: eq finish_chat_trace callHuggingFace_def)
      have first: "\<exists>rest. trace (chat_hf cfg limiter clk up2 req st)
                         = Fetch (HFRequest prompt) # rest"
        unfolding tr by (rule hf_loop_first_event) simp
      have all: "\<forall>ev \<in> set (trace (chat_hf cfg limiter clk up2 req st)).
                  ev = Fetch (HFRequest prompt) \<or> ev = Wait 10000 \<or> ev = Wait 2000"
        unfolding tr by (blast dest: hf_loop_events)
      show ?thesis using eq first all by blast
    qed
    show ?thesis using c ct h by blast
  qed
  show ?thesis using suffix len handlers by blast
qed

theorem adapter_receives_most_recent_messages_witness:
  "slice_last 12 twenty_messages
     = map numbered_message
         [''turn 9'', ''turn 10'', ''turn 11'', ''turn 12'', ''turn 13'', ''turn 14'', ''turn 15'', ''turn 16'', ''turn 17'', ''turn 18'', ''turn 19'', ''turn 20'']
   \<and> slice_last 8 twenty_messages
     = map numbered_message [''turn 13'', ''turn 14'', ''turn 15'', ''turn 16'', ''turn 17'', ''turn 18'', ''turn 19'', ''turn 20'']
   \<and> length (slice_last 12 twenty_messages) = 12
   \<and> length (slice_last 12 [hello_message]) = 1
   \<and> trace (chat_claude default_config never_over monday claude_answer twenty_request monday_state)
     = [Fetch (ClaudeRequest (JStr [])
          (map numbered_message
             [''turn 9'', ''turn 10'', ''turn 11'', ''turn 12'', ''turn 13'', ''turn 14'', ''turn 15'', ''turn 16'', ''turn 17'', ''turn 18'', ''turn 19'',
              ''turn 20'']))]
   \<and> trace (chat_hf default_config never_over monday (\<lambda>i. hf_answer) twenty_request monday_state)
     = [Fetch (HFRequest
          (concat (map (\<lambda>s. ''[INST] '' @ s @ '' [/INST]'' @ [CHR 0x0A])
             [''turn 13'', ''turn 14'', ''turn 15'', ''turn 16'', ''turn 17'', ''turn 18'', ''turn 19'', ''turn 20''])))]"
  using adapter_receives_most_recent_messages [where ms = twenty_messages and n = 12
          and cfg = default_config and req = twenty_request and limiter = never_over
          and clk = monday and st = monday_state and ?up1.0 = claude_answer
          and ?up2.0 = "\<lambda>i. hf_answer"]
        adapter_receives_most_recent_messages [where ms = "[hello_message]" and n = 12
          and cfg = default_config and req = hello_request and limiter = never_over
          and clk = monday and st = monday_state and ?up1.0 = claude_answer
          and ?up2.0 = "\<lambda>i. hf_answer"]
  by (simp add: default_config_def never_over_def monday_def claude_answer_def hf_answer_def
        twenty_request_def twenty_messages_def numbered_message_def monday_state_def
        hello_message_def hello_request_def route_defs adapter_defs hf_loop.simps)

section \<open>When the counter changes\<close>

lemma chat_handler_claude_unreadable:
  "isDemoActive cfg clk \<Longrightarrow> destructure (body req) ''messages'' = Inl e \<Longrightarrow>
   chat_handler_claude cfg clk up req st
     = \<lparr>response = error_response cfg e, state = st, trace = []\<rparr>"
  by (simp add: chat_handler_claude_def)

lemma chat_handler_hf_unreadable:
  "isDemoActive cfg clk \<Longrightarrow> destructure (body req) ''messages'' = Inl e \<Longrightarrow>
   chat_handler_hf cfg clk up req st
     = \<lparr>response = error_response cfg e, state = st, trace = []\<rparr>"
  by (simp add: chat_handler_hf_def)

lemma chat_handler_claude_rejects_invalid:
  "isDemoActive cfg clk \<Longrightarrow> destructure (body req) ''messages'' = Inr m \<Longrightarrow>
   invalid_messages m \<Longrightarrow>
   chat_handler_claude cfg clk up req st
     = \<lparr>response = invalid_request_response, state = st, trace = []\<rparr>"
  by (simp add: chat_handler_claude_def)

lemma chat_handler_hf_rejects_invalid:
  "isDemoActive cfg clk \<Longrightarrow> destructure (body req) ''messages'' = Inr m \<Longrightarrow>
   invalid_messages m \<Longrightarrow>
   chat_handler_hf cfg clk up req st
     = \<lparr>response = invalid_request_response, state = st, trace = []\<rparr>"
  by (simp add: chat_handler_hf_def)

lemma valid_messages_array:
  "\<not> invalid_messages m \<Longrightarrow> m = JArr (elements m) \<and> elements m \<noteq> []"
  by (cases m) (simp_all add: invalid_messages_def)

lemma finish_chat_200:
  assumes "status (response (finish_chat cfg provider st res)) = 200"
  shows "dailyRequestCount (state (finish_chat cfg provider st res)) = dailyRequestCount st + 1
    \<and> get_prop (json (response (finish_chat cfg provider st res))) ''requestsRemaining''
        = Inr (remaining cfg (dailyRequestCount st + 1))"
proof (cases res)
  case (Pair r tr)
  show ?thesis
  proof (cases r)
    case (Inl e)
    with Pair assms show ?thesis by (simp add: finish_chat_def error_response_def)
  next
    case (Inr v)
    show ?thesis
    proof (cases "call_trim v")
      case (Inl e)
      with Pair Inr assms show ?thesis by (simp add: finish_chat_def Let_def error_response_def)
    next
      case Inr2: (Inr t)
      with Pair Inr show ?thesis by (simp add: finish_chat_def Let_def)
    qed
  qed
qed

lemma finish_chat_other_status:
  "status (response (finish_chat cfg provider st res)) \<noteq> 200 \<Longrightarrow>
   status (response (finish_chat cfg provider st res)) \<noteq> 500 \<Longrightarrow> False"
  using finish_chat_status [of cfg provider st res] by auto

lemma chat_handler_claude_200:
  assumes "status (response (chat_handler_claude cfg clk up req st)) = 200"
  shows "dailyRequestCount (state (chat_handler_claude cfg clk up req st))
      = dailyRequestCount st + 1
    \<and> get_prop (json (response (chat_handler_claude cfg clk up req st))) ''requestsRemaining''
        = Inr (remaining cfg (dailyRequestCount st + 1))"
  using assms
  by (auto simp: chat_handler_claude_def Let_def demo_expired_response_def error_response_def
        invalid_request_response_def finish_chat_200 split: if_splits sum.splits)

lemma chat_handler_hf_200:
  assumes "status (response (chat_handler_hf cfg clk up req st)) = 200"
  shows "dailyRequestCount (state (chat_handler_hf cfg clk up req st))
      = dailyRequestCount st + 1
    \<and> get_prop (json (response (chat_handler_hf cfg clk up req st))) ''requestsRemaining''
        = Inr (remaining cfg (dailyRequestCount st + 1))"
  using assms
  by (auto simp: chat_handler_hf_def Let_def demo_expired_response_def error_response_def
        invalid_request_response_def finish_chat_200 split: if_splits sum.splits)

lemma chat_handler_claude_rejection:
  assumes "status (response (chat_handler_claude cfg clk up req st)) \<noteq> 200"
    "status (response (chat_handler_claude cfg clk up req st)) \<noteq> 500"
  shows "state (chat_handler_claude cfg clk up req st) = st
    \<and> trace (chat_handler_claude cfg clk up req st) = []"
  using assms
  by (auto simp: chat_handler_claude_def Let_def error_response_def
        split: if_splits sum.splits dest: finish_chat_other_status)

lemma chat_handler_hf_rejection:
  assumes "status (response (chat_handler_hf cfg clk up req st)) \<noteq> 200"
    "status (response (chat_handler_hf cfg clk up req st)) \<noteq> 500"
  shows "state (chat_handler_hf cfg clk up req st) = st
    \<and> trace (chat_handler_hf cfg clk up req st) = []"
  using assms
  by (auto simp: chat_handler_hf_def Let_def error_response_def
        split: if_splits sum.splits dest: finish_chat_other_status)

lemma chat_route_200:
  assumes h: "\<And>st'. status (response (handler clk up req st')) = 200 \<Longrightarrow>
        dailyRequestCount (state (handler clk up req st')) = dailyRequestCount st' + 1
        \<and> get_prop (json (response (handler clk up req st'))) ''requestsRemaining''
            = Inr (remaining cfg (dailyRequestCount st' + 1))"
    and ok: "status (response (chat_route handler cfg limiter clk up req st)) = 200"
  shows "dailyRequestCount (state (chat_route handler cfg limiter clk up req st))
      = dailyRequestCount (resetDailyCounter clk st) + 1
    \<and> get_prop (json (response (chat_route handler cfg limiter clk up req st)))
          ''requestsRemaining''
        = Inr (remaining cfg (dailyRequestCount (resetDailyCounter clk st) + 1))"
  using chat_route_cases [of cfg req handler limiter clk up st] ok
        h [of "after_gates limiter clk req st"]
  by (auto simp: auth_error_response_def rate_limited_response_def daily_limit_response_def)

lemma chat_route_rejection:
  assumes h: "\<And>st'. status (response (handler clk up req st')) \<noteq> 200 \<Longrightarrow>
        status (response (handler clk up req st')) \<noteq> 500 \<Longrightarrow>
        state (handler clk up req st') = st' \<and> trace (handler clk up req st') = []"
    and "status (response (chat_route handler cfg limiter clk up req st)) \<noteq> 200"
    and "status (response (chat_route handler cfg limiter clk up req st)) \<noteq> 500"
  shows "trace (chat_route handler cfg limiter clk up req st) = []
    \<and> (state (chat_route handler cfg limiter clk up req st) = st
        \<or> state (chat_route handler cfg limiter clk up req st) = after_limiter limiter req st
        \<or> state (chat_route handler cfg limiter clk up req st) = after_gates limiter clk req st)"
  using chat_route_cases [of cfg req handler limiter clk up st] assms(2,3)
        h [of "after_gates limiter clk req st"]
  by auto

lemma remaining_Some: "DAILY_LIMIT cfg = Some l \<Longrightarrow> remaining cfg c = JNum (max 0 (l - c))"
  by (simp add: remaining_def)

text \<open>
  Claim C5, as amended. In both files, for every chat request:
  \<^item> a rejection by the authentication or the rate-limit gate leaves the counter and the
    stored day as they were; a rejection by the daily gate, by the demo check or by the
    validation of \<^verbatim>\<open>messages\<close> leaves them as the lazy day reset of the daily gate left
    them, so on a new day the counter has been set to zero; none of these rejections
    calls the upstream or increments the counter;
  \<^item> when the body cannot be read, when the prompt cannot be built or when the adapter
    throws, the response is the 500 of the \<^verbatim>\<open>catch\<close> block and the counter is the one the
    reset left;
  \<^item> on the success path, where the adapter returns a string, the counter is the one the
    reset left plus 1, the status is 200 and \<^verbatim>\<open>requestsRemaining\<close> is
    \<open>max 0 (DAILY_LIMIT - count)\<close> for the incremented count; every response with status
    200 comes with this counter and this \<^verbatim>\<open>requestsRemaining\<close>, and every response with a
    status other than 200 and 500 comes without an upstream call and with the state of
    one of the rejections above.
  An array that passes the validation is a non-empty array, so these cases leave out only
  an adapter call that returns a value that is not a string.
\<close>

theorem chat_counter_mutation:
  "(validatePassword cfg req \<noteq> None \<longrightarrow>
      chat_claude cfg limiter clk up1 req st
        = \<lparr>response = auth_error_response, state = st, trace = []\<rparr>
      \<and> chat_hf cfg limiter clk up2 req st
        = \<lparr>response = auth_error_response, state = st, trace = []\<rparr>)
   \<and> (validatePassword cfg req = None \<and> rate_limited limiter req st \<longrightarrow>
      chat_claude cfg limiter clk up1 req st
        = \<lparr>response = rate_limited_response, state = after_limiter limiter req st, trace = []\<rparr>
      \<and> chat_hf cfg limiter clk up2 req st
        = \<lparr>response = rate_limited_response, state = after_limiter limiter req st, trace = []\<rparr>)
   \<and> (validatePassword cfg req = None \<and> \<not> rate_limited limiter req st
       \<and> quota_exhausted cfg clk st \<longrightarrow>
      chat_claude cfg limiter clk up1 req st
        = \<lparr>response = daily_limit_response, state = after_gates limiter clk req st, trace = []\<rparr>
      \<and> chat_hf cfg limiter clk up2 req st
        = \<lparr>response = daily_limit_response, state = after_gates limiter clk req st, trace = []\<rparr>)
   \<and> (validatePassword cfg req = None \<and> \<not> rate_limited limiter req st
       \<and> \<not> quota_exhausted cfg clk st \<and> \<not> isDemoActive cfg clk \<longrightarrow>
      chat_claude cfg limiter clk up1 req st
        = \<lparr>response = demo_expired_response, state = after_gates limiter clk req st, trace = []\<rparr>
      \<and> chat_hf cfg limiter clk up2 req st
        = \<lparr>response = demo_expired_response, state = after_gates limiter clk req st, trace = []\<rparr>)
   \<and> (validatePassword cfg req = None \<and> \<not> rate_limited limiter req st
       \<and> \<not> quota_exhausted cfg clk st \<and> isDemoActive cfg clk
       \<and> destructure (body req) ''messages'' = Inl e \<longrightarrow>
      chat_claude cfg limiter clk up1 req st
        = \<lparr>response = error_response cfg e, state = after_gates limiter clk req st, trace = []\<rparr>
      \<and> chat_hf cfg limiter clk up2 req st
        = \<lparr>response = error_response cfg e, state = after_gates limiter clk req st, trace = []\<rparr>)
   \<and> (validatePassword cfg req = None \<and> \<not> rate_limited limiter req st
       \<and> \<not> quota_exhausted cfg clk st \<and> isDemoActive cfg clk
       \<and> destructure (body req) ''messages'' = Inr m \<and> invalid_messages m \<longrightarrow>
      chat_claude cfg limiter clk up1 req st
        = \<lparr>response = invalid_request_response, state = after_gates limiter clk req st, trace = []\<rparr>
      \<and> chat_hf cfg limiter clk up2 req st
        = \<lparr>response = invalid_request_response, state = after_gates limiter clk req st, trace = []\<rparr>)
   \<and> (\<not> invalid_messages m \<longrightarrow> m = JArr (elements m) \<and> elements m \<noteq> [])
   \<and> (validatePassword cfg req = None \<and> \<not> rate_limited limiter req st
       \<and> \<not> quota_exhausted cfg clk st \<and> isDemoActive cfg clk
       \<and> destructure (body req) ''messages'' = Inr (JArr ms) \<and> ms \<noteq> []
       \<and> callClaude up1 (slice_last 12 ms) = (Inl e, tr) \<longrightarrow>
      chat_claude cfg limiter clk up1 req st
        = \<lparr>response = error_response cfg e, state = after_gates limiter clk req st, trace = tr\<rparr>)
   \<and> (validatePassword cfg req = None \<and> \<not> rate_limited limiter req st
       \<and> \<not> quota_exhausted cfg clk st \<and> isDemoActive cfg clk
       \<and> destructure (body req) ''messages'' = Inr (JArr ms) \<and> ms \<noteq> []
       \<and> callClaude up1 (slice_last 12 ms) = (Inr (JStr s), tr) \<longrightarrow>
      chat_claude cfg limiter clk up1 req st
        = \<lparr>response =
             \<lparr>status = 200,
               json = JObj [(''message'', JStr (trim s)), (''isDemoMode'', JBool True),
                            (''aiProvider'', JStr ''Claude 3.5 Haiku''),
                            (''requestsRemaining'', remaining cfg (dailyRequestCount (resetDailyCounter clk st) + 1))]\<rparr>,
           state = (after_gates limiter clk req st)\<lparr>dailyRequestCount := dailyRequestCount (resetDailyCounter clk st) + 1\<rparr>,
           trace = tr\<rparr>)
   \<and> (validatePassword cfg req = None \<and> \<not> rate_limited limiter req st
       \<and> \<not> quota_exhausted cfg clk st \<and> isDemoActive cfg clk
       \<and> destructure (body req) ''messages'' = Inr (JArr ms) \<and> ms \<noteq> []
       \<and> buildPrompt (slice_last 8 ms) = Inl e \<longrightarrow>
      chat_hf cfg limiter clk up2 req st
        = \<lparr>response = error_response cfg e, state = after_gates limiter clk req st, trace = []\<rparr>)
   \<and> (validatePassword cfg req = None \<and> \<not> rate_limited limiter req st
       \<and> \<not> quota_exhausted cfg clk st \<and> isDemoActive cfg clk
       \<and> destructure (body req) ''messages'' = Inr (JArr ms) \<and> ms \<noteq> []
       \<and> buildPrompt (slice_last 8 ms) = Inr prompt
       \<and> callHuggingFace up2 prompt 3 = (Inl e, tr) \<longrightarrow>
      chat_hf cfg limiter clk up2 req st
        = \<lparr>response = error_response cfg e, state = after_gates limiter clk req st, trace = tr\<rparr>)
   \<and> (validatePassword cfg req = None \<and> \<not> rate_limited limiter req st
       \<and> \<not> quota_exhausted cfg clk st \<and> isDemoActive cfg clk
       \<and> destructure (body req) ''messages'' = Inr (JArr ms) \<and> ms \<noteq> []
       \<and> buildPrompt (slice_last 8 ms) = Inr prompt
       \<and> callHuggingFace up2 prompt 3 = (Inr (JStr s), tr) \<longrightarrow>
      chat_hf cfg limiter clk up2 req st
        = \<lparr>response =
             \<lparr>status = 200,
               json = JObj [(''message'', JStr (trim s)), (''isDemoMode'', JBool True),
                            (''aiProvider'', JStr ''Hugging Face''),
                            (''requestsRemaining'', remaining cfg (dailyRequestCount (resetDailyCounter clk st) + 1))]\<rparr>,
           state = (after_gates limiter clk req st)\<lparr>dailyRequestCount := dailyRequestCount (resetDailyCounter clk st) + 1\<rparr>,
           trace = tr\<rparr>)
   \<and> (status (response (chat_claude cfg limiter clk up1 req st)) = 200 \<longrightarrow>
      dailyRequestCount (state (chat_claude cfg limiter clk up1 req st)) = dailyRequestCount (resetDailyCounter clk st) + 1
      \<and> get_prop (json (response (chat_claude cfg limiter clk up1 req st))) ''requestsRemaining''
          = Inr (remaining cfg (dailyRequestCount (resetDailyCounter clk st) + 1)))
   \<and> (status (response (chat_hf cfg limiter clk up2 req st)) = 200 \<longrightarrow>
      dailyRequestCount (state (chat_hf cfg limiter clk up2 req st)) = dailyRequestCount (resetDailyCounter clk st) + 1
      \<and> get_prop (json (response (chat_hf cfg limiter clk up2 req st))) ''requestsRemaining''
          = Inr (remaining cfg (dailyRequestCount (resetDailyCounter clk st) + 1)))
   \<and> (status (response (chat_claude cfg limiter clk up1 req st)) \<noteq> 200
       \<and> status (response (chat_claude cfg limiter clk up1 req st)) \<noteq> 500 \<longrightarrow>
      trace (chat_claude cfg limiter clk up1 req st) = []
      \<and> (state (chat_claude cfg limiter clk up1 req st) = st
          \<or> state (chat_claude cfg limiter clk up1 req st) = after_limiter limiter req st
          \<or> state (chat_claude cfg limiter clk up1 req st) = after_gates limiter clk req st))
   \<and> (status (response (chat_hf cfg limiter clk up2 req st)) \<noteq> 200
       \<and> status (response (chat_hf cfg limiter clk up2 req st)) \<noteq> 500 \<longrightarrow>
      trace (chat_hf cfg limiter clk up2 req st) = []
      \<and> (state (chat_hf cfg limiter clk up2 req st) = st
          \<or> state (chat_hf cfg limiter clk up2 req st) = after_limiter limiter req st
          \<or> state (chat_hf cfg limiter clk up2 req st) = after_gates limiter clk req st))
   \<and> (status (error_response cfg e) = 500)
   \<and> (DAILY_LIMIT cfg = Some l \<longrightarrow> remaining cfg c = JNum (max 0 (l - c)))"
proof -
  have auth: "validatePassword cfg req \<noteq> None \<longrightarrow>
          chat_claude cfg limiter clk up1 req st
            = \<lparr>response = auth_error_response, state = st, trace = []\<rparr>
          \<and> chat_hf cfg limiter clk up2 req st
            = \<lparr>response = auth_error_response, state = st, trace = []\<rparr>"
    by (simp add: chat_claude_def chat_hf_def chat_route_auth)
  have rate: "validatePassword cfg req = None \<and> rate_limited limiter req st \<longrightarrow>
          chat_claude cfg limiter clk up1 req st
            = \<lparr>response = rate_limited_response, state = after_limiter limiter req st, trace = []\<rparr>
          \<and> chat_hf cfg limiter clk up2 req st
            = \<lparr>response = rate_limited_response, state = after_limiter limiter req st, trace = []\<rparr>"
    by (simp add: chat_claude_def chat_hf_def chat_route_rate)
  have daily: "validatePassword cfg req = None \<and> \<not> rate_limited limiter req st
           \<and> quota_exhausted cfg clk st \<longrightarrow>
          chat_claude cfg limiter clk up1 req st
            = \<lparr>response = daily_limit_response, state = after_gates limiter clk req st, trace = []\<rparr>
          \<and> chat_hf cfg limiter clk up2 req st
            = \<lparr>response = daily_limit_response, state = after_gates limiter clk req st, trace = []\<rparr>"
    by (simp add: chat_claude_def chat_hf_def chat_route_daily)
  have demo: "validatePassword cfg req = None \<and> \<not> rate_limited limiter req st
           \<and> \<not> quota_exhausted cfg clk st \<and> \<not> isDemoActive cfg clk \<longrightarrow>
          chat_claude cfg limiter clk up1 req st
            = \<lparr>response = demo_expired_response, state = after_gates limiter clk req st, trace = []\<rparr>
          \<and> chat_hf cfg limiter clk up2 req st
            = \<lparr>response = demo_expired_response, state = after_gates limiter clk req st, trace = []\<rparr>"
    by (simp add: chat_claude_def chat_hf_def chat_route_handler
          chat_handler_claude_expired chat_handler_hf_expired)
  have unreadable: "validatePassword cfg req = None \<and> \<not> rate_limited limiter req st
           \<and> \<not> quota_exhausted cfg clk st \<and> isDemoActive cfg clk
           \<and> destructure (body req) ''messages'' = Inl e \<longrightarrow>
          chat_claude cfg limiter clk up1 req st
            = \<lparr>response = error_response cfg e, state = after_gates limiter clk req st, trace = []\<rparr>
          \<and> chat_hf cfg limiter clk up2 req st
            = \<lparr>response = error_response cfg e, state = after_gates limiter clk req st, trace = []\<rparr>"
    by (simp add: chat_claude_def chat_hf_def chat_route_handler
          chat_handler_claude_unreadable chat_handler_hf_unreadable)
  have invalid: "validatePassword cfg req = None \<and> \<not> rate_limited limiter req st
           \<and> \<not> quota_exhausted cfg clk st \<and> isDemoActive cfg clk
           \<and> destructure (body req) ''messages'' = Inr m \<and> invalid_messages m \<longrightarrow>
          chat_claude cfg limiter clk up1 req st
            = \<lparr>response = invalid_request_response, state = after_gates limiter clk req st, trace = []\<rparr>
          \<and> chat_hf cfg limiter clk up2 req st
            = \<lparr>response = invalid_request_response, state = after_gates limiter clk req st, trace = []\<rparr>"
    by (simp add: chat_claude_def chat_hf_def chat_route_handler
          chat_handler_claude_rejects_invalid chat_handler_hf_rejects_invalid)
  have cover: "\<not> invalid_messages m \<longrightarrow> m = JArr (elements m) \<and> elements m \<noteq> []"
    by (simp add: valid_messages_array)
  have claude_throws: "validatePassword cfg req = None \<and> \<not> rate_limited limiter req st
           \<and> \<not> quota_exhausted cfg clk st \<and> isDemoActive cfg clk
           \<and> destructure (body req) ''messages'' = Inr (JArr ms) \<and> ms \<noteq> []
           \<and> callClaude up1 (slice_last 12 ms) = (Inl e, tr) \<longrightarrow>
          chat_claude cfg limiter clk up1 req st
            = \<lparr>response = error_response cfg e, state = after_gates limiter clk req st, trace = tr\<rparr>"
    by (simp add: chat_claude_def chat_route_handler chat_handler_claude_def
          invalid_messages_def finish_chat_threw)
  have claude_returns: "validatePassword cfg req = None \<and> \<not> rate_limited limiter req st
           \<and> \<not> quota_exhausted cfg clk st \<and> isDemoActive cfg clk
           \<and> destructure (body req) ''messages'' = Inr (JArr ms) \<and> ms \<noteq> []
           \<and> callClaude up1 (slice_last 12 ms) = (Inr (JStr s), tr) \<longrightarrow>
          chat_claude cfg limiter clk up1 req st
            = \<lparr>response =
                 \<lparr>status = 200,
                   json = JObj [(''message'', JStr (trim s)), (''isDemoMode'', JBool True),
                                (''aiProvider'', JStr ''Claude 3.5 Haiku''),
                                (''requestsRemaining'', remaining cfg (dailyRequestCount (resetDailyCounter clk st) + 1))]\<rparr>,
               state = (after_gates limiter clk req st)\<lparr>dailyRequestCount := dailyRequestCount (resetDailyCounter clk st) + 1\<rparr>,
               trace = tr\<rparr>"
    by (simp add: chat_claude_def chat_route_handler chat_handler_claude_def
          invalid_messages_def finish_chat_string)
  have prompt_throws: "validatePassword cfg req = None \<and> \<not> rate_limited limiter req st
           \<and> \<not> quota_exhausted cfg clk st \<and> isDemoActive cfg clk
           \<and> destructure (body req) ''messages'' = Inr (JArr ms) \<and> ms \<noteq> []
           \<and> buildPrompt (slice_last 8 ms) = Inl e \<longrightarrow>
          chat_hf cfg limiter clk up2 req st
            = \<lparr>response = error_response cfg e, state = after_gates limiter clk req st, trace = []\<rparr>"
    by (simp add: chat_hf_def chat_route_handler chat_handler_hf_def invalid_messages_def)
  have hf_throws: "validatePassword cfg req = None \<and> \<not> rate_limited limiter req st
           \<and> \<not> quota_exhausted cfg clk st \<and> isDemoActive cfg clk
           \<and> destructure (body req) ''messages'' = Inr (JArr ms) \<and> ms \<noteq> []
           \<and> buildPrompt (slice_last 8 ms) = Inr prompt
           \<and> callHuggingFace up2 prompt 3 = (Inl e, tr) \<longrightarrow>
          chat_hf cfg limiter clk up2 req st
            = \<lparr>response = error_response cfg e, state = after_gates limiter clk req st, trace = tr\<rparr>"
    by (simp add: chat_hf_def chat_route_handler chat_handler_hf_def
          invalid_messages_def finish_chat_threw)
  have hf_returns: "validatePassword cfg req = None \<and> \<not> rate_limited limiter req st
           \<and> \<not> quota_exhausted cfg clk st \<and> isDemoActive cfg clk
           \<and> destructure (body req) ''messages'' = Inr (JArr ms) \<and> ms \<noteq> []
           \<and> buildPrompt (slice_last 8 ms) = Inr prompt
           \<and> callHuggingFace up2 prompt 3 = (Inr (JStr s), tr) \<longrightarrow>
          chat_hf cfg limiter clk up2 req st
            = \<lparr>response =
                 \<lparr>status = 200,
                   json = JObj [(''message'', JStr (trim s)), (''isDemoMode'', JBool True),
                                (''aiProvider'', JStr ''Hugging Face''),
                                (''requestsRemaining'', remaining cfg (dailyRequestCount (resetDailyCounter clk st) + 1))]\<rparr>,
               state = (after_gates limiter clk req st)\<lparr>dailyRequestCount := dailyRequestCount (resetDailyCounter clk st) + 1\<rparr>,
               trace = tr\<rparr>"
    by (simp add: chat_hf_def chat_route_handler chat_handler_hf_def
          invalid_messages_def finish_chat_string)
  have claude_200: "status (response (chat_claude cfg limiter clk up1 req st)) = 200 \<longrightarrow>
          dailyRequestCount (state (chat_claude cfg limiter clk up1 req st)) = dailyRequestCount (resetDailyCounter clk st) + 1
          \<and> get_prop (json (response (chat_claude cfg limiter clk up1 req st))) ''requestsRemaining''
              = Inr (remaining cfg (dailyRequestCount (resetDailyCounter clk st) + 1))"
    unfolding chat_claude_def
    using chat_route_200 [of "chat_handler_claude cfg" clk up1 req cfg limiter st]
          chat_handler_claude_200 [of cfg clk up1 req]
    by blast
  have hf_200: "status (response (chat_hf cfg limiter clk up2 req st)) = 200 \<longrightarrow>
          dailyRequestCount (state (chat_hf cfg limiter clk up2 req st)) = dailyRequestCount (resetDailyCounter clk st) + 1
          \<and> get_prop (json (response (chat_hf cfg limiter clk up2 req st))) ''requestsRemaining''
              = Inr (remaining cfg (dailyRequestCount (resetDailyCounter clk st) + 1))"
    unfolding chat_hf_def
    using chat_route_200 [of "chat_handler_hf cfg" clk up2 req cfg limiter st]
          chat_handler_hf_200 [of cfg clk up2 req]
    by blast
  have claude_rejection: "status (response (chat_claude cfg limiter clk up1 req st)) \<noteq> 200
           \<and> status (response (chat_claude cfg limiter clk up1 req st)) \<noteq> 500 \<longrightarrow>
          trace (chat_claude cfg limiter clk up1 req st) = []
          \<and> (state (chat_claude cfg limiter clk up1 req st) = st
              \<or> state (chat_claude cfg limiter clk up1 req st) = after_limiter limiter req st
              \<or> state (chat_claude cfg limiter clk up1 req st) = after_gates limiter clk req st)"
    unfolding chat_claude_def
    using chat_route_rejection [of "chat_handler_claude cfg" clk up1 req cfg limiter st]
          chat_handler_claude_rejection [of cfg clk up1 req]
    by blast
  have hf_rejection: "status (response (chat_hf cfg limiter clk up2 req st)) \<noteq> 200
           \<and> status (response (chat_hf cfg limiter clk up2 req st)) \<noteq> 500 \<longrightarrow>
          trace (chat_hf cfg limiter clk up2 req st) = []
          \<and> (state (chat_hf cfg limiter clk up2 req st) = st
              \<or> state (chat_hf cfg limiter clk up2 req st) = after_limiter limiter req st
              \<or> state (chat_hf cfg limiter clk up2 req st) = after_gates limiter clk req st)"
    unfolding chat_hf_def
    using chat_route_rejection [of "chat_handler_hf cfg" clk up2 req cfg limiter st]
          chat_handler_hf_rejection [of cfg clk up2 req]
    by blast
  have status500: "status (error_response cfg e) = 500"
    by (simp add: error_response_def)
  have remaining: "DAILY_LIMIT cfg = Some l \<longrightarrow> remaining cfg c = JNum (max 0 (l - c))"
    by (simp add: remaining_Some)
  show ?thesis
    using auth rate daily demo unreadable invalid cover claude_throws claude_returns
      prompt_throws hf_throws hf_returns claude_200 hf_200 claude_rejection hf_rejection status500 remaining
    by blast
qed

text \<open>
  Claim C5 as stated fails: a request with the right password that arrives on 1 January
  2026, after the demo has ended, is rejected with 403 and no upstream call, and the counter
  that stood at 5 is 0 afterwards, reset by the daily gate that ran before the demo check.
\<close>

theorem chat_rejection_resets_counter:
  "status (response (chat_claude default_config never_over new_year claude_answer hello_request
                       monday_state)) = 403
   \<and> trace (chat_claude default_config never_over new_year claude_answer hello_request
               monday_state) = []
   \<and> dailyRequestCount monday_state = 5
   \<and> dailyRequestCount (state (chat_claude default_config never_over new_year claude_answer
                                   hello_request monday_state)) = 0"
  by (simp add: default_config_def never_over_def new_year_def claude_answer_def
        hello_request_def hello_message_def monday_state_def route_defs demo_expired_response_def)

theorem chat_counter_mutation_witness:
  "validatePassword default_config_hf anonymous_request \<noteq> None
   \<and> chat_hf default_config_hf never_over tuesday (\<lambda>i. hf_answer) anonymous_request monday_state
     = \<lparr>response = auth_error_response, state = monday_state, trace = []\<rparr>
   \<and> validatePassword default_config hello_request = None
   \<and> rate_limited always_over hello_request monday_state
   \<and> chat_claude default_config always_over tuesday claude_answer hello_request monday_state
     = \<lparr>response = rate_limited_response, state = monday_state, trace = []\<rparr>
   \<and> (\<not> rate_limited never_over hello_request exhausted_state
      \<and> quota_exhausted default_config monday exhausted_state)
   \<and> chat_claude default_config never_over monday claude_answer hello_request exhausted_state
     = \<lparr>response = daily_limit_response, state = exhausted_state, trace = []\<rparr>
   \<and> (\<not> quota_exhausted default_config new_year monday_state
      \<and> \<not> isDemoActive default_config new_year)
   \<and> chat_claude default_config never_over new_year claude_answer hello_request monday_state
     = \<lparr>response = demo_expired_response,
        state = \<lparr>dailyRequestCount = 0, lastResetDate = ''Thu Jan 01 2026'',
                   limiter_store = ()\<rparr>,
        trace = []\<rparr>
   \<and> (\<not> quota_exhausted default_config monday monday_state
      \<and> isDemoActive default_config monday)
   \<and> (validatePassword default_config bodyless_request = None
      \<and> destructure (body bodyless_request) ''messages''
        = Inl (TypeError ''Cannot destructure property 'messages' of 'req.body' as it is undefined.''))
   \<and> chat_claude default_config never_over monday claude_answer bodyless_request monday_state
     = \<lparr>response = error_response default_config
          (TypeError ''Cannot destructure property 'messages' of 'req.body' as it is undefined.''),
        state = monday_state, trace = []\<rparr>
   \<and> (validatePassword default_config no_messages_request = None
      \<and> destructure (body no_messages_request) ''messages'' = Inr JUndefined
      \<and> invalid_messages JUndefined)
   \<and> chat_hf default_config never_over monday (\<lambda>i. hf_answer) no_messages_request monday_state
     = \<lparr>response = invalid_request_response, state = monday_state, trace = []\<rparr>
   \<and> (\<not> invalid_messages (JArr [hello_message])
      \<and> elements (JArr [hello_message]) = [hello_message])
   \<and> destructure (body hello_request) ''messages'' = Inr (JArr [hello_message])
   \<and> callClaude network_failure (slice_last 12 [hello_message])
     = (Inl (TypeError ''fetch failed''), [Fetch (ClaudeRequest (JStr []) [hello_message])])
   \<and> chat_claude default_config never_over monday network_failure hello_request monday_state
     = \<lparr>response = error_response default_config (TypeError ''fetch failed''),
        state = monday_state, trace = [Fetch (ClaudeRequest (JStr []) [hello_message])]\<rparr>
   \<and> status (error_response default_config (TypeError ''fetch failed'')) = 500
   \<and> callClaude claude_answer (slice_last 12 [hello_message])
     = (Inr (JStr '' Who goes there? ''), [Fetch (ClaudeRequest (JStr []) [hello_message])])
   \<and> chat_claude default_config never_over monday claude_answer hello_request monday_state
     = \<lparr>response =
          \<lparr>status = 200,
           json = JObj [(''message'', JStr ''Who goes there?''), (''isDemoMode'', JBool True),
                        (''aiProvider'', JStr ''Claude 3.5 Haiku''),
                        (''requestsRemaining'', JNum 194)]\<rparr>,
        state = monday_state\<lparr>dailyRequestCount := 6\<rparr>, trace = [Fetch (ClaudeRequest (JStr []) [hello_message])]\<rparr>
   \<and> remaining default_config 6 = JNum 194
   \<and> (validatePassword default_config_hf null_message_request = None
      \<and> destructure (body null_message_request) ''messages'' = Inr (JArr [JNull])
      \<and> buildPrompt (slice_last 8 [JNull]) = Inl (TypeError ''Cannot read properties of null (reading 'role')''))
   \<and> chat_hf default_config_hf never_over monday (\<lambda>i. hf_answer) null_message_request monday_state
     = \<lparr>response = error_response default_config_hf
          (TypeError ''Cannot read properties of null (reading 'role')''),
        state = monday_state, trace = []\<rparr>
   \<and> buildPrompt (slice_last 8 [hello_message]) = Inr (''[INST] Hello [/INST]'' @ [CHR 0x0A])
   \<and> callHuggingFace (\<lambda>i. network_failure) (''[INST] Hello [/INST]'' @ [CHR 0x0A]) 3
     = (Inl (TypeError ''fetch failed''),
        [Fetch (HFRequest (''[INST] Hello [/INST]'' @ [CHR 0x0A])), Wait 2000,
         Fetch (HFRequest (''[INST] Hello [/INST]'' @ [CHR 0x0A])), Wait 2000,
         Fetch (HFRequest (''[INST] Hello [/INST]'' @ [CHR 0x0A]))])
   \<and> chat_hf default_config_hf never_over monday (\<lambda>i. network_failure) hello_request monday_state
     = \<lparr>response = error_response default_config_hf (TypeError ''fetch failed''),
        state = monday_state,
        trace =
          [Fetch (HFRequest (''[INST] Hello [/INST]'' @ [CHR 0x0A])), Wait 2000,
           Fetch (HFRequest (''[INST] Hello [/INST]'' @ [CHR 0x0A])), Wait 2000,
           Fetch (HFRequest (''[INST] Hello [/INST]'' @ [CHR 0x0A]))]\<rparr>
   \<and> callHuggingFace (\<lambda>i. hf_answer) (''[INST] Hello [/INST]'' @ [CHR 0x0A]) 3
     = (Inr (JStr '' Who goes there? ''), [Fetch (HFRequest (''[INST] Hello [/INST]'' @ [CHR 0x0A]))])
   \<and> chat_hf default_config_hf never_over tuesday (\<lambda>i. hf_answer) hello_request monday_state
     = \<lparr>response =
          \<lparr>status = 200,
           json = JObj [(''message'', JStr ''Who goes there?''), (''isDemoMode'', JBool True),
                        (''aiProvider'', JStr ''Hugging Face''),
                        (''requestsRemaining'', JNum 499)]\<rparr>,
        state = \<lparr>dailyRequestCount = 1, lastResetDate = ''Tue Nov 04 2025'',
                   limiter_store = ()\<rparr>,
        trace = [Fetch (HFRequest (''[INST] Hello [/INST]'' @ [CHR 0x0A]))]\<rparr>
   \<and> (status (response (chat_claude default_config never_over monday claude_answer hello_request
                          monday_state)) = 200
      \<and> dailyRequestCount (state (chat_claude default_config never_over monday claude_answer
                                     hello_request monday_state)) = 6
      \<and> get_prop (json (response (chat_claude default_config never_over monday claude_answer
                                     hello_request monday_state))) ''requestsRemaining''
        = Inr (JNum 194))
   \<and> (status (response (chat_hf default_config_hf never_over tuesday (\<lambda>i. hf_answer)
                          anonymous_request monday_state)) = 401
      \<and> trace (chat_hf default_config_hf never_over tuesday (\<lambda>i. hf_answer) anonymous_request
                 monday_state) = []
      \<and> state (chat_hf default_config_hf never_over tuesday (\<lambda>i. hf_answer) anonymous_request
                 monday_state) = monday_state)"
proof -
  note samples =
    default_config_def default_config_hf_def anonymous_request_def hello_request_def
    hello_message_def bodyless_request_def no_messages_request_def
    null_message_request_def never_over_def always_over_def tuesday_def monday_def
    new_year_def monday_state_def exhausted_state_def network_failure_def
    claude_answer_def hf_answer_def
  note evaluation =
    validatePassword_def DEMO_PASSWORD_def limit_reached_def resetDailyCounter_def
    isDemoActive_def destructure_def invalid_messages_def slice_last_def remaining_def
    trim_def is_space_def error_response_def adapter_defs hf_loop.simps
  have h_auth: "validatePassword default_config_hf anonymous_request \<noteq> None"
    by (simp add: samples evaluation)
  have w_auth: "chat_hf default_config_hf never_over tuesday (\<lambda>i. hf_answer) anonymous_request monday_state
         = \<lparr>response = auth_error_response, state = monday_state, trace = []\<rparr>"
    using chat_counter_mutation
           [where limiter = never_over
             and clk = tuesday
             and st = monday_state
             and ?up1.0 = claude_answer
             and ?up2.0 = "\<lambda>i. hf_answer"
             and cfg = default_config_hf
             and req = anonymous_request,
            THEN conjunct1]
    by (simp add: samples evaluation)
  have h_pass: "validatePassword default_config hello_request = None"
    by (simp add: samples evaluation)
  have h_rate: "rate_limited always_over hello_request monday_state"
    by (simp add: samples evaluation)
  have w_rate: "chat_claude default_config always_over tuesday claude_answer hello_request monday_state
         = \<lparr>response = rate_limited_response, state = monday_state, trace = []\<rparr>"
    using chat_counter_mutation
           [where limiter = always_over
             and clk = tuesday
             and st = monday_state
             and ?up1.0 = claude_answer
             and ?up2.0 = "\<lambda>i. hf_answer"
             and cfg = default_config
             and req = hello_request,
            THEN conjunct2, THEN conjunct1]
    by (simp add: samples evaluation)
  have h_quota: "\<not> rate_limited never_over hello_request exhausted_state
         \<and> quota_exhausted default_config monday exhausted_state"
    by (simp add: samples evaluation)
  have w_daily: "chat_claude default_config never_over monday claude_answer hello_request exhausted_state
         = \<lparr>response = daily_limit_response, state = exhausted_state, trace = []\<rparr>"
    using chat_counter_mutation
           [where limiter = never_over
             and clk = monday
             and st = exhausted_state
             and ?up1.0 = claude_answer
             and ?up2.0 = "\<lambda>i. hf_answer"
             and cfg = default_config
             and req = hello_request,
            THEN conjunct2, THEN conjunct2, THEN conjunct1]
    by (simp add: samples evaluation)
  have h_demo: "\<not> quota_exhausted default_config new_year monday_state
         \<and> \<not> isDemoActive default_config new_year"
    by (simp add: samples evaluation)
  have w_demo: "chat_claude default_config never_over new_year claude_answer hello_request monday_state
         = \<lparr>response = demo_expired_response,
            state = \<lparr>dailyRequestCount = 0, lastResetDate = ''Thu Jan 01 2026'',
                       limiter_store = ()\<rparr>,
            trace = []\<rparr>"
    using chat_counter_mutation
           [where limiter = never_over
             and clk = new_year
             and st = monday_state
             and ?up1.0 = claude_answer
             and ?up2.0 = "\<lambda>i. hf_answer"
             and cfg = default_config
             and req = hello_request,
            THEN conjunct2, THEN conjunct2, THEN conjunct2, THEN conjunct1]
    by (simp add: samples evaluation)
  have h_served: "\<not> quota_exhausted default_config monday monday_state
         \<and> isDemoActive default_config monday"
    by (simp add: samples evaluation)
  have h_unreadable: "validatePassword default_config bodyless_request = None
         \<and> destructure (body bodyless_request) ''messages''
           = Inl (TypeError ''Cannot destructure property 'messages' of 'req.body' as it is undefined.'')"
    by (simp add: samples evaluation)
  have w_unreadable: "chat_claude default_config never_over monday claude_answer bodyless_request monday_state
         = \<lparr>response = error_response default_config
              (TypeError ''Cannot destructure property 'messages' of 'req.body' as it is undefined.''),
            state = monday_state, trace = []\<rparr>"
    using chat_counter_mutation
           [where limiter = never_over
             and clk = monday
             and st = monday_state
             and ?up1.0 = claude_answer
             and ?up2.0 = "\<lambda>i. hf_answer"
             and cfg = default_config
             and req = bodyless_request
             and e = "TypeError ''Cannot destructure property 'messages' of 'req.body' as it is undefined.''",
            THEN conjunct2, THEN conjunct2, THEN conjunct2, THEN conjunct2, THEN
            conjunct1]
    by (simp add: samples evaluation)
  have h_invalid: "validatePassword default_config no_messages_request = None
         \<and> destructure (body no_messages_request) ''messages'' = Inr JUndefined
         \<and> invalid_messages JUndefined"
    by (simp add: samples evaluation)
  have w_invalid: "chat_hf default_config never_over monday (\<lambda>i. hf_answer) no_messages_request monday_state
         = \<lparr>response = invalid_request_response, state = monday_state, trace = []\<rparr>"
    using chat_counter_mutation
           [where limiter = never_over
             and clk = monday
             and st = monday_state
             and ?up1.0 = claude_answer
             and ?up2.0 = "\<lambda>i. hf_answer"
             and cfg = default_config
             and req = no_messages_request
             and m = JUndefined,
            THEN conjunct2, THEN conjunct2, THEN conjunct2, THEN conjunct2, THEN
            conjunct2, THEN conjunct1]
    by (simp add: samples evaluation)
  have w_cover: "\<not> invalid_messages (JArr [hello_message])
         \<and> elements (JArr [hello_message]) = [hello_message]"
    using chat_counter_mutation
           [where m = "JArr [hello_message]",
            THEN conjunct2, THEN conjunct2, THEN conjunct2, THEN conjunct2, THEN
            conjunct2, THEN conjunct2, THEN conjunct1]
    by (simp add: samples evaluation)
  have h_valid: "destructure (body hello_request) ''messages'' = Inr (JArr [hello_message])"
    by (simp add: samples evaluation)
  have h_claude_throws: "callClaude network_failure (slice_last 12 [hello_message])
         = (Inl (TypeError ''fetch failed''), [Fetch (ClaudeRequest (JStr []) [hello_message])])"
    by (simp add: samples evaluation)
  have w_claude_throws: "chat_claude default_config never_over monday network_failure hello_request monday_state
         = \<lparr>response = error_response default_config (TypeError ''fetch failed''),
            state = monday_state, trace = [Fetch (ClaudeRequest (JStr []) [hello_message])]\<rparr>"
    using chat_counter_mutation
           [where limiter = never_over
             and clk = monday
             and st = monday_state
             and ?up1.0 = network_failure
             and ?up2.0 = "\<lambda>i. hf_answer"
             and cfg = default_config
             and req = hello_request
             and ms = "[hello_message]"
             and e = "TypeError ''fetch failed''"
             and tr = "[Fetch (ClaudeRequest (JStr []) [hello_message])]",
            THEN conjunct2, THEN conjunct2, THEN conjunct2, THEN conjunct2, THEN
            conjunct2, THEN conjunct2, THEN conjunct2, THEN conjunct1]
    by (simp add: samples evaluation)
  have w_500: "status (error_response default_config (TypeError ''fetch failed'')) = 500"
    using chat_counter_mutation
           [where cfg = default_config
             and e = "TypeError ''fetch failed''",
            THEN conjunct2, THEN conjunct2, THEN conjunct2, THEN conjunct2, THEN
            conjunct2, THEN conjunct2, THEN conjunct2, THEN conjunct2, THEN conjunct2,
            THEN conjunct2, THEN conjunct2, THEN conjunct2, THEN conjunct2, THEN
            conjunct2, THEN conjunct2, THEN conjunct2, THEN conjunct1]
    by (simp add: samples evaluation)
  have h_claude_returns: "callClaude claude_answer (slice_last 12 [hello_message])
         = (Inr (JStr '' Who goes there? ''), [Fetch (ClaudeRequest (JStr []) [hello_message])])"
    by (simp add: samples evaluation)
  have w_claude_returns: "chat_claude default_config never_over monday claude_answer hello_request monday_state
         = \<lparr>response =
              \<lparr>status = 200,
               json = JObj [(''message'', JStr ''Who goes there?''), (''isDemoMode'', JBool True),
                            (''aiProvider'', JStr ''Claude 3.5 Haiku''),
                            (''requestsRemaining'', JNum 194)]\<rparr>,
            state = monday_state\<lparr>dailyRequestCount := 6\<rparr>, trace = [Fetch (ClaudeRequest (JStr []) [hello_message])]\<rparr>"
    using chat_counter_mutation
           [where limiter = never_over
             and clk = monday
             and st = monday_state
             and ?up1.0 = claude_answer
             and ?up2.0 = "\<lambda>i. hf_answer"
             and cfg = default_config
             and req = hello_request
             and ms = "[hello_message]"
             and s = "'' Who goes there? ''"
             and tr = "[Fetch (ClaudeRequest (JStr []) [hello_message])]",
            THEN conjunct2, THEN conjunct2, THEN conjunct2, THEN conjunct2, THEN
            conjunct2, THEN conjunct2, THEN conjunct2, THEN conjunct2, THEN conjunct1]
    by (simp add: samples evaluation)
  have w_remaining: "remaining default_config 6 = JNum 194"
    using chat_counter_mutation
           [where cfg = default_config
             and l = 200
             and c = 6,
            THEN conjunct2, THEN conjunct2, THEN conjunct2, THEN conjunct2, THEN
            conjunct2, THEN conjunct2, THEN conjunct2, THEN conjunct2, THEN conjunct2,
            THEN conjunct2, THEN conjunct2, THEN conjunct2, THEN conjunct2, THEN
            conjunct2, THEN conjunct2, THEN conjunct2, THEN conjunct2]
    by (simp add: samples evaluation)
  have h_prompt_throws: "validatePassword default_config_hf null_message_request = None
         \<and> destructure (body null_message_request) ''messages'' = Inr (JArr [JNull])
         \<and> buildPrompt (slice_last 8 [JNull]) = Inl (TypeError ''Cannot read properties of null (reading 'role')'')"
    by (simp add: samples evaluation)
  have w_prompt_throws: "chat_hf default_config_hf never_over monday (\<lambda>i. hf_answer) null_message_request monday_state
         = \<lparr>response = error_response default_config_hf
              (TypeError ''Cannot read properties of null (reading 'role')''),
            state = monday_state, trace = []\<rparr>"
    using chat_counter_mutation
           [where limiter = never_over
             and clk = monday
             and st = monday_state
             and ?up1.0 = claude_answer
             and ?up2.0 = "\<lambda>i. hf_answer"
             and cfg = default_config_hf
             and req = null_message_request
             and ms = "[JNull]"
             and e = "TypeError ''Cannot read properties of null (reading 'role')''",
            THEN conjunct2, THEN conjunct2, THEN conjunct2, THEN conjunct2, THEN
            conjunct2, THEN conjunct2, THEN conjunct2, THEN conjunct2, THEN conjunct2,
            THEN conjunct1]
    by (simp add: samples evaluation)
  have h_prompt: "buildPrompt (slice_last 8 [hello_message]) = Inr (''[INST] Hello [/INST]'' @ [CHR 0x0A])"
    by (simp add: samples evaluation)
  have h_hf_throws: "callHuggingFace (\<lambda>i. network_failure) (''[INST] Hello [/INST]'' @ [CHR 0x0A]) 3
         = (Inl (TypeError ''fetch failed''),
            [Fetch (HFRequest (''[INST] Hello [/INST]'' @ [CHR 0x0A])), Wait 2000,
             Fetch (HFRequest (''[INST] Hello [/INST]'' @ [CHR 0x0A])), Wait 2000,
             Fetch (HFRequest (''[INST] Hello [/INST]'' @ [CHR 0x0A]))])"
    by (simp add: samples evaluation)
  have w_hf_throws: "chat_hf default_config_hf never_over monday (\<lambda>i. network_failure) hello_request monday_state
         = \<lparr>response = error_response default_config_hf (TypeError ''fetch failed''),
            state = monday_state,
            trace =
              [Fetch (HFRequest (''[INST] Hello [/INST]'' @ [CHR 0x0A])), Wait 2000,
               Fetch (HFRequest (''[INST] Hello [/INST]'' @ [CHR 0x0A])), Wait 2000,
               Fetch (HFRequest (''[INST] Hello [/INST]'' @ [CHR 0x0A]))]\<rparr>"
    using chat_counter_mutation
           [where limiter = never_over
             and clk = monday
             and st = monday_state
             and ?up1.0 = claude_answer
             and ?up2.0 = "\<lambda>i. network_failure"
             and cfg = default_config_hf
             and req = hello_request
             and ms = "[hello_message]"
             and e = "TypeError ''fetch failed''"
             and prompt = "''[INST] Hello [/INST]'' @ [CHR 0x0A]"
             and tr = "[Fetch (HFRequest (''[INST] Hello [/INST]'' @ [CHR 0x0A])), Wait 2000, Fetch (HFRequest (''[INST] Hello [/INST]'' @ [CHR 0x0A])), Wait 2000, Fetch (HFRequest (''[INST] Hello [/INST]'' @ [CHR 0x0A]))]",
            THEN conjunct2, THEN conjunct2, THEN conjunct2, THEN conjunct2, THEN
            conjunct2, THEN conjunct2, THEN conjunct2, THEN conjunct2, THEN conjunct2,
            THEN conjunct2, THEN conjunct1]
    by (simp add: samples evaluation)
  have h_hf_returns: "callHuggingFace (\<lambda>i. hf_answer) (''[INST] Hello [/INST]'' @ [CHR 0x0A]) 3
         = (Inr (JStr '' Who goes there? ''), [Fetch (HFRequest (''[INST] Hello [/INST]'' @ [CHR 0x0A]))])"
    by (simp add: samples evaluation)
  have w_hf_returns: "chat_hf default_config_hf never_over tuesday (\<lambda>i. hf_answer) hello_request monday_state
         = \<lparr>response =
              \<lparr>status = 200,
               json = JObj [(''message'', JStr ''Who goes there?''), (''isDemoMode'', JBool True),
                            (''aiProvider'', JStr ''Hugging Face''),
                            (''requestsRemaining'', JNum 499)]\<rparr>,
            state = \<lparr>dailyRequestCount = 1, lastResetDate = ''Tue Nov 04 2025'',
                       limiter_store = ()\<rparr>,
            trace = [Fetch (HFRequest (''[INST] Hello [/INST]'' @ [CHR 0x0A]))]\<rparr>"
    using chat_counter_mutation
           [where limiter = never_over
             and clk = tuesday
             and st = monday_state
             and ?up1.0 = claude_answer
             and ?up2.0 = "\<lambda>i. hf_answer"
             and cfg = default_config_hf
             and req = hello_request
             and ms = "[hello_message]"
             and s = "'' Who goes there? ''"
             and prompt = "''[INST] Hello [/INST]'' @ [CHR 0x0A]"
             and tr = "[Fetch (HFRequest (''[INST] Hello [/INST]'' @ [CHR 0x0A]))]",
            THEN conjunct2, THEN conjunct2, THEN conjunct2, THEN conjunct2, THEN
            conjunct2, THEN conjunct2, THEN conjunct2, THEN conjunct2, THEN conjunct2,
            THEN conjunct2, THEN conjunct2, THEN conjunct1]
    by (simp add: samples evaluation)
  have w_200: "status (response (chat_claude default_config never_over monday claude_answer hello_request
                             monday_state)) = 200
         \<and> dailyRequestCount (state (chat_claude default_config never_over monday claude_answer
                                        hello_request monday_state)) = 6
         \<and> get_prop (json (response (chat_claude default_config never_over monday claude_answer
                                        hello_request monday_state))) ''requestsRemaining''
           = Inr (JNum 194)"
    using chat_counter_mutation
           [where limiter = never_over
             and clk = monday
             and st = monday_state
             and ?up1.0 = claude_answer
             and ?up2.0 = "\<lambda>i. hf_answer"
             and cfg = default_config
             and req = hello_request,
            THEN conjunct2, THEN conjunct2, THEN conjunct2, THEN conjunct2, THEN
            conjunct2, THEN conjunct2, THEN conjunct2, THEN conjunct2, THEN conjunct2,
            THEN conjunct2, THEN conjunct2, THEN conjunct2, THEN conjunct1]
          w_claude_returns
    by (simp add: samples evaluation auth_error_response_def)
  have w_rejection: "status (response (chat_hf default_config_hf never_over tuesday (\<lambda>i. hf_answer)
                             anonymous_request monday_state)) = 401
         \<and> trace (chat_hf default_config_hf never_over tuesday (\<lambda>i. hf_answer) anonymous_request
                    monday_state) = []
         \<and> state (chat_hf default_config_hf never_over tuesday (\<lambda>i. hf_answer) anonymous_request
                    monday_state) = monday_state"
    using chat_counter_mutation
           [where limiter = never_over
             and clk = tuesday
             and st = monday_state
             and ?up1.0 = claude_answer
             and ?up2.0 = "\<lambda>i. hf_answer"
             and cfg = default_config_hf
             and req = anonymous_request,
            THEN conjunct2, THEN conjunct2, THEN conjunct2, THEN conjunct2, THEN
            conjunct2, THEN conjunct2, THEN conjunct2, THEN conjunct2, THEN conjunct2,
            THEN conjunct2, THEN conjunct2, THEN conjunct2, THEN conjunct2, THEN
            conjunct2, THEN conjunct2, THEN conjunct1]
          w_auth
    by (simp add: samples evaluation auth_error_response_def)
  show ?thesis
    by (rule conjI [OF h_auth
      conjI [OF w_auth
      conjI [OF h_pass
      conjI [OF h_rate
      conjI [OF w_rate
      conjI [OF h_quota
      conjI [OF w_daily
      conjI [OF h_demo
      conjI [OF w_demo
      conjI [OF h_served
      conjI [OF h_unreadable
      conjI [OF w_unreadable
      conjI [OF h_invalid
      conjI [OF w_invalid
      conjI [OF w_cover
      conjI [OF h_valid
      conjI [OF h_claude_throws
      conjI [OF w_claude_throws
      conjI [OF w_500
      conjI [OF h_claude_returns
      conjI [OF w_claude_returns
      conjI [OF w_remaining
      conjI [OF h_prompt_throws
      conjI [OF w_prompt_throws
      conjI [OF h_prompt
      conjI [OF h_hf_throws
      conjI [OF w_hf_throws
      conjI [OF h_hf_returns
      conjI [OF w_hf_returns
      conjI [OF w_200 w_rejection]]]]]]]]]]]]]]]]]]]]]]]]]]]]]])
qed

section \<open>The retry loop of the prompt-concatenation adapter\<close>

text \<open>
  Claim C1. Each cold-start answer uses up one iteration of the loop, but an upstream that
  answers 503 to all three fetches makes \<^verbatim>\<open>callHuggingFace\<close> return \<^verbatim>\<open>undefined\<close> after the
  third wait instead of throwing: the \<^verbatim>\<open>continue\<close> of the last iteration leaves the loop
  past the \<^verbatim>\<open>catch\<close> block, the only place that throws on the last attempt. The chat
  handler then counts the request (5 becomes 6) before \<^verbatim>\<open>ghostResponse.trim()\<close> throws
  on \<^verbatim>\<open>undefined\<close> and the client gets the 500.
\<close>

theorem cold_start_exhaustion_returns_undefined:
  "callHuggingFace (\<lambda>i. cold_start) prompt 3
     = (Inr JUndefined,
        [Fetch (HFRequest prompt), Wait 10000, Fetch (HFRequest prompt), Wait 10000,
         Fetch (HFRequest prompt), Wait 10000])
   \<and> dailyRequestCount monday_state = 5
   \<and> chat_hf default_config_hf never_over monday (\<lambda>i. cold_start) hello_request monday_state
     = \<lparr>response =
          \<lparr>status = 500,
           json = JObj [(''error'', JStr ''An error occurred.''),
                        (''details'', JStr ''Please try again'')]\<rparr>,
        state = monday_state\<lparr>dailyRequestCount := 6\<rparr>,
        trace =
          [Fetch (HFRequest (''[INST] Hello [/INST]'' @ [CHR 0x0A])), Wait 10000,
           Fetch (HFRequest (''[INST] Hello [/INST]'' @ [CHR 0x0A])), Wait 10000,
           Fetch (HFRequest (''[INST] Hello [/INST]'' @ [CHR 0x0A])), Wait 10000]\<rparr>"
  by (simp add: cold_start_def default_config_hf_def default_config_def never_over_def
        monday_def hello_request_def hello_message_def monday_state_def route_defs adapter_defs
        error_response_def hf_loop.simps)

lemma has_key_map_of: "has_key (JObj kvs) k \<longleftrightarrow> map_of kvs k \<noteq> None"
  by (simp add: has_key_def map_of_eq_None_iff)

lemma first_generated_text_unrecognized:
  "\<not> recognized_shape (JArr xs) \<Longrightarrow> first_generated_text (JArr xs) = JUndefined"
proof (cases xs)
  case Nil
  then show ?thesis by (simp add: first_generated_text_def)
next
  case (Cons first rest)
  assume "\<not> recognized_shape (JArr xs)"
  with Cons have "\<not> has_key first ''generated_text''" by simp
  then show ?thesis
    using Cons
    by (cases first) (simp_all add: first_generated_text_def has_key_map_of)
qed

lemma normalize_unrecognized:
  assumes "\<not> recognized_shape data" "data \<noteq> JNull" "data \<noteq> JUndefined"
  shows "normalize data = Inl (Error ''Unexpected response format'')"
proof (cases data)
  case (JArr xs)
  with assms(1) show ?thesis
    by (simp add: normalize_def first_generated_text_unrecognized)
next
  case (JObj kvs)
  with assms(1) show ?thesis
    by (simp add: normalize_def has_key_map_of)
qed (use assms in \<open>simp_all add: normalize_def\<close>)

lemma normalize_null:
  "normalize JNull
     = Inl (TypeError ''Cannot read properties of null (reading 'generated_text')'')"
  by (simp add: normalize_def)

lemma hf_loop_error:
  assumes "i < retries" "attempt (upstream i) = Some (Inl e)"
  shows "hf_loop upstream prompt retries i
     = (if i = retries - 1 then (Inl e, [Fetch (HFRequest prompt)])
        else after [Fetch (HFRequest prompt), Wait 2000]
               (hf_loop upstream prompt retries (i + 1)))"
  using assms by (simp add: hf_loop.simps [of upstream prompt retries i])

lemma attempt_parsed:
  "upstream i = Resolved r \<Longrightarrow> ok r \<Longrightarrow> up_json r = Inr data \<Longrightarrow>
   attempt (upstream i) = Some (normalize data)"
  by (auto simp: attempt_def ok_def)

text \<open>
  Claim C2, as amended. A parsed body that is none of the three shapes makes the attempt
  fail: with the error \<^verbatim>\<open>Unexpected response format\<close>, or, for the body \<^verbatim>\<open>null\<close>, with the
  TypeError of reading \<^verbatim>\<open>generated_text\<close> from it. The error is thrown inside the \<^verbatim>\<open>try\<close>
  block, so it is handled like every other error of an attempt: on the last iteration it
  is thrown to the caller and no further fetch is made; on an earlier one the adapter
  waits two seconds and goes on with the next iteration.
\<close>

theorem unrecognized_shape_fails_attempt:
  "(\<not> recognized_shape data \<and> data \<noteq> JNull \<and> data \<noteq> JUndefined \<longrightarrow>
      normalize data = Inl (Error ''Unexpected response format''))
   \<and> normalize JNull
       = Inl (TypeError ''Cannot read properties of null (reading 'generated_text')'')
   \<and> (i < retries \<and> upstream i = Resolved r \<and> ok r \<and> up_json r = Inr data
       \<and> normalize data = Inl e \<longrightarrow>
      hf_loop upstream prompt retries i
        = (if i = retries - 1 then (Inl e, [Fetch (HFRequest prompt)])
           else after [Fetch (HFRequest prompt), Wait 2000]
                  (hf_loop upstream prompt retries (i + 1))))
   \<and> callHuggingFace upstream prompt retries = hf_loop upstream prompt retries 0"
proof -
  have shape: "\<not> recognized_shape data \<and> data \<noteq> JNull \<and> data \<noteq> JUndefined \<longrightarrow>
      normalize data = Inl (Error ''Unexpected response format'')"
    by (simp add: normalize_unrecognized)
  have loop: "hf_loop upstream prompt retries i
        = (if i = retries - 1 then (Inl e, [Fetch (HFRequest prompt)])
           else after [Fetch (HFRequest prompt), Wait 2000]
                  (hf_loop upstream prompt retries (i + 1)))"
    if "i < retries" "upstream i = Resolved r" "ok r" "up_json r = Inr data"
       "normalize data = Inl e"
  proof -
    have "attempt (upstream i) = Some (Inl e)"
      using that attempt_parsed [of upstream i r data] by simp
    with that(1) show ?thesis by (rule hf_loop_error)
  qed
  show ?thesis
    using shape normalize_null loop by (simp add: callHuggingFace_def)
qed

text \<open>
  Claim C2 as stated fails: when the first answer has an unrecognized shape and the second
  is a regular one, the adapter makes a second fetch and returns its text.
\<close>

theorem unrecognized_shape_is_retried:
  "\<not> recognized_shape (JObj [(''error'', JStr ''overloaded'')])
   \<and> unrecognized_then_answer 0
       = Resolved \<lparr>up_status = 200, up_text = [],
                   up_json = Inr (JObj [(''error'', JStr ''overloaded'')])\<rparr>
   \<and> callHuggingFace unrecognized_then_answer ''Hello'' 3
       = (Inr (JStr '' Who goes there? ''),
          [Fetch (HFRequest ''Hello''), Wait 2000, Fetch (HFRequest ''Hello'')])"
  by (simp add: unrecognized_then_answer_def unrecognized_answer_def hf_answer_def
        adapter_defs hf_loop.simps has_key_def)

theorem unrecognized_shape_fails_attempt_witness:
  "\<not> recognized_shape (JObj [(''error'', JStr ''overloaded'')])
   \<and> normalize (JObj [(''error'', JStr ''overloaded'')])
       = Inl (Error ''Unexpected response format'')
   \<and> hf_loop (\<lambda>i. unrecognized_answer) ''Hello'' 3 2
       = (Inl (Error ''Unexpected response format''), [Fetch (HFRequest ''Hello'')])
   \<and> hf_loop (\<lambda>i. unrecognized_answer) ''Hello'' 3 0
       = after [Fetch (HFRequest ''Hello''), Wait 2000]
           (hf_loop (\<lambda>i. unrecognized_answer) ''Hello'' 3 1)
   \<and> callHuggingFace (\<lambda>i. unrecognized_answer) ''Hello'' 3
       = (Inl (Error ''Unexpected response format''),
          [Fetch (HFRequest ''Hello''), Wait 2000, Fetch (HFRequest ''Hello''), Wait 2000,
           Fetch (HFRequest ''Hello'')])"
  using unrecognized_shape_fails_attempt [where data = "JObj [(''error'', JStr ''overloaded'')]"
          and i = 2 and retries = 3 and upstream = "\<lambda>i. unrecognized_answer"
          and prompt = "''Hello''" and e = "Error ''Unexpected response format''"
          and r = "\<lparr>up_status = 200, up_text = [],
                     up_json = Inr (JObj [(''error'', JStr ''overloaded'')])\<rparr>"]
        unrecognized_shape_fails_attempt [where data = "JObj [(''error'', JStr ''overloaded'')]"
          and i = 0 and retries = 3 and upstream = "\<lambda>i. unrecognized_answer"
          and prompt = "''Hello''" and e = "Error ''Unexpected response format''"
          and r = "\<lparr>up_status = 200, up_text = [],
                     up_json = Inr (JObj [(''error'', JStr ''overloaded'')])\<rparr>"]
  by (simp add: unrecognized_answer_def adapter_defs hf_loop.simps has_key_def)

section \<open>The request of the structured-message adapter\<close>

lemma get_prop_role: "m \<noteq> JNull \<Longrightarrow> m \<noteq> JUndefined \<Longrightarrow> get_prop m ''role'' = Inr (role_of m)"
  by (cases m) (simp_all add: role_of_def)

lemma get_prop_content:
  "m \<noteq> JNull \<Longrightarrow> m \<noteq> JUndefined \<Longrightarrow> get_prop m ''content'' = Inr (content_of m)"
  by (cases m) (simp_all add: content_of_def)

lemma system_message_truthy: "role_of m = JStr ''system'' \<Longrightarrow> truthy m"
  by (cases m) (simp_all add: role_of_def)

lemma find_system_readable:
  "\<forall>m \<in> set ms. m \<noteq> JNull \<and> m \<noteq> JUndefined \<Longrightarrow>
   find_system ms
     = Inr (case find (\<lambda>m. role_of m = JStr ''system'') ms of
              None \<Rightarrow> JUndefined | Some m \<Rightarrow> m)"
  by (induction ms) (simp_all add: get_prop_role)

lemma filter_not_system_readable:
  "\<forall>m \<in> set ms. m \<noteq> JNull \<and> m \<noteq> JUndefined \<Longrightarrow>
   filter_not_system ms = Inr (filter (\<lambda>m. role_of m \<noteq> JStr ''system'') ms)"
  by (induction ms) (simp_all add: get_prop_role)

lemma find_Some_props: "find P xs = Some x \<Longrightarrow> P x \<and> x \<in> set xs"
  by (induction xs) (auto split: if_splits)

text \<open>
  Claim C3, as amended. For a message sequence without \<^verbatim>\<open>null\<close> entries, \<^verbatim>\<open>callClaude\<close>
  sends one request: its system instruction is the content of the first message whose
  role is \<^verbatim>\<open>system\<close>, or the empty string when there is none, and its conversation body is
  the messages whose role is not \<^verbatim>\<open>system\<close>, in their order. Every message with role
  \<^verbatim>\<open>system\<close>, the first and any later one, is left out of the body.
\<close>

theorem claude_request_separates_system:
  "(\<forall>m \<in> set ms. m \<noteq> JNull \<and> m \<noteq> JUndefined) \<longrightarrow>
     claude_request ms
       = Inr (ClaudeRequest
                (case find (\<lambda>m. role_of m = JStr ''system'') ms of
                   None \<Rightarrow> JStr [] | Some m \<Rightarrow> content_of m)
                (filter (\<lambda>m. role_of m \<noteq> JStr ''system'') ms))
     \<and> snd (callClaude upstream ms)
       = [Fetch (ClaudeRequest
                (case find (\<lambda>m. role_of m = JStr ''system'') ms of
                   None \<Rightarrow> JStr [] | Some m \<Rightarrow> content_of m)
                (filter (\<lambda>m. role_of m \<noteq> JStr ''system'') ms))]"
proof
  assume readable: "\<forall>m \<in> set ms. m \<noteq> JNull \<and> m \<noteq> JUndefined"
  have rq: "claude_request ms
       = Inr (ClaudeRequest
                (case find (\<lambda>m. role_of m = JStr ''system'') ms of
                   None \<Rightarrow> JStr [] | Some m \<Rightarrow> content_of m)
                (filter (\<lambda>m. role_of m \<noteq> JStr ''system'') ms))"
  proof (cases "find (\<lambda>m. role_of m = JStr ''system'') ms")
    case None
    then show ?thesis
      using readable
      by (simp add: claude_request_def find_system_readable filter_not_system_readable)
  next
    case (Some m)
    then have "role_of m = JStr ''system''" and "m \<in> set ms"
      using find_Some_props [of "\<lambda>m. role_of m = JStr ''system''" ms m] by simp_all
    then have "truthy m" and "get_prop m ''content'' = Inr (content_of m)"
      using readable by (simp_all add: system_message_truthy get_prop_content)
    then show ?thesis
      using readable Some
      by (simp add: claude_request_def find_system_readable filter_not_system_readable)
  qed
  show "claude_request ms
       = Inr (ClaudeRequest
                (case find (\<lambda>m. role_of m = JStr ''system'') ms of
                   None \<Rightarrow> JStr [] | Some m \<Rightarrow> content_of m)
                (filter (\<lambda>m. role_of m \<noteq> JStr ''system'') ms))
     \<and> snd (callClaude upstream ms)
       = [Fetch (ClaudeRequest
                (case find (\<lambda>m. role_of m = JStr ''system'') ms of
                   None \<Rightarrow> JStr [] | Some m \<Rightarrow> content_of m)
                (filter (\<lambda>m. role_of m \<noteq> JStr ''system'') ms))]"
    using rq by (simp add: callClaude_trace)
qed

text \<open>
  Claim C3 as stated fails: of two system messages around a user message, the second is
  not passed on, while taking out the first system message only would keep it. A
  sequence with a \<^verbatim>\<open>null\<close> entry yields no request at all: reading its role throws.
\<close>

theorem later_system_messages_are_dropped:
  "claude_request two_system_messages
     = Inr (ClaudeRequest (JStr ''You are a ghost.'') [hello_message])
   \<and> without_first_system two_system_messages
     = [hello_message,
        JObj [(''role'', JStr ''system''), (''content'', JStr ''Answer in verse.'')]]
   \<and> claude_request null_entry_messages
     = Inl (TypeError ''Cannot read properties of null (reading 'role')'')"
  by (simp add: two_system_messages_def null_entry_messages_def hello_message_def
        claude_request_def role_of_def)

theorem claude_request_separates_system_witness:
  "claude_request two_system_messages
     = Inr (ClaudeRequest (JStr ''You are a ghost.'') [hello_message])
   \<and> snd (callClaude claude_answer two_system_messages)
     = [Fetch (ClaudeRequest (JStr ''You are a ghost.'') [hello_message])]
   \<and> claude_request [hello_message] = Inr (ClaudeRequest (JStr []) [hello_message])"
  using claude_request_separates_system [where ms = two_system_messages
          and upstream = claude_answer]
        claude_request_separates_system [where ms = "[hello_message]"
          and upstream = claude_answer]
  by (simp add: two_system_messages_def hello_message_def claude_answer_def role_of_def
        content_of_def)

section \<open>Password verification\<close>

lemma DEMO_PASSWORD_nonempty: "DEMO_PASSWORD cfg \<noteq> []"
  by (simp add: DEMO_PASSWORD_def split: option.split)

lemma verify_missing:
  "destructure (body req) ''password'' = Inr password \<Longrightarrow> \<not> truthy password \<Longrightarrow>
   verify extra cfg clk req st
     = Inr (\<lparr>status = 400,
             json = JObj [(''valid'', JBool False), (''error'', JStr ''Password is required'')]\<rparr>,
            st)"
  by (simp add: verify_def)

lemma verify_right:
  "destructure (body req) ''password'' = Inr (JStr (DEMO_PASSWORD cfg)) \<Longrightarrow>
   verify extra cfg clk req st
     = Inr (\<lparr>status = 200,
             json = JObj ([(''valid'', JBool True),
                           (''message'', JStr ''Password verified successfully''),
                           (''requestsRemaining'',
                              remaining cfg (dailyRequestCount (resetDailyCounter clk st)))]
                          @ extra)\<rparr>,
            resetDailyCounter clk st)"
  by (simp add: verify_def DEMO_PASSWORD_nonempty Let_def)

lemma verify_wrong:
  "destructure (body req) ''password'' = Inr password \<Longrightarrow> truthy password \<Longrightarrow>
   password \<noteq> JStr (DEMO_PASSWORD cfg) \<Longrightarrow>
   verify extra cfg clk req st
     = Inr (\<lparr>status = 401,
             json = JObj [(''valid'', JBool False), (''error'', JStr ''Invalid password'')]\<rparr>,
            st)"
  by (simp add: verify_def)

lemma destructure_absent:
  "map_of kvs ''password'' = None \<Longrightarrow> destructure (JObj kvs) ''password'' = Inr JUndefined"
  by (simp add: destructure_def)

text \<open>
  Claim C4, as amended. \<^verbatim>\<open>POST /api/verify\<close> reads \<^verbatim>\<open>password\<close> from the body; an object
  without the field gives \<^verbatim>\<open>undefined\<close>. In both files a password that is absent or falsy
  (such as the empty string) is answered with 400 and \<^verbatim>\<open>valid: false\<close>, and a truthy
  password other than the configured secret with 401 and \<^verbatim>\<open>valid: false\<close>, the state
  unchanged. The configured secret is answered with 200 after the lazy day reset, with
  \<^verbatim>\<open>valid: true\<close>, a message and \<^verbatim>\<open>requestsRemaining\<close>; \<^verbatim>\<open>server.js\<close> adds \<^verbatim>\<open>aiProvider\<close>,
  \<^verbatim>\<open>part_000\<close> does not.
\<close>

theorem verify_password:
  "(body req = JObj kvs \<and> map_of kvs ''password'' = None \<longrightarrow>
      destructure (body req) ''password'' = Inr JUndefined)
   \<and> (destructure (body req) ''password'' = Inr password \<and> \<not> truthy password \<longrightarrow>
      verify_claude cfg clk req st
        = Inr (\<lparr>status = 400,
                json = JObj [(''valid'', JBool False),
                             (''error'', JStr ''Password is required'')]\<rparr>, st)
      \<and> verify_hf cfg clk req st
        = Inr (\<lparr>status = 400,
                json = JObj [(''valid'', JBool False),
                             (''error'', JStr ''Password is required'')]\<rparr>, st))
   \<and> (destructure (body req) ''password'' = Inr (JStr (DEMO_PASSWORD cfg)) \<longrightarrow>
      verify_claude cfg clk req st
        = Inr (\<lparr>status = 200,
                json = JObj [(''valid'', JBool True),
                             (''message'', JStr ''Password verified successfully''),
                             (''requestsRemaining'',
                                remaining cfg (dailyRequestCount (resetDailyCounter clk st))),
                             (''aiProvider'', JStr ''Claude 3.5 Haiku'')]\<rparr>,
               resetDailyCounter clk st)
      \<and> verify_hf cfg clk req st
        = Inr (\<lparr>status = 200,
                json = JObj [(''valid'', JBool True),
                             (''message'', JStr ''Password verified successfully''),
                             (''requestsRemaining'',
                                remaining cfg (dailyRequestCount (resetDailyCounter clk st)))]\<rparr>,
               resetDailyCounter clk st))
   \<and> (destructure (body req) ''password'' = Inr password \<and> truthy password
       \<and> password \<noteq> JStr (DEMO_PASSWORD cfg) \<longrightarrow>
      verify_claude cfg clk req st
        = Inr (\<lparr>status = 401,
                json = JObj [(''valid'', JBool False), (''error'', JStr ''Invalid password'')]\<rparr>,
               st)
      \<and> verify_hf cfg clk req st
        = Inr (\<lparr>status = 401,
                json = JObj [(''valid'', JBool False), (''error'', JStr ''Invalid password'')]\<rparr>,
               st))"
  unfolding verify_claude_def verify_hf_def
  by (simp add: verify_missing verify_right verify_wrong destructure_absent)

text \<open>
  Claim C4 as stated fails: the success body of \<^verbatim>\<open>part_000\<close> has no \<^verbatim>\<open>aiProvider\<close>, and
  a password that is present but empty is answered with 400, not 401.
\<close>

theorem verify_hf_has_no_aiProvider:
  "DEMO_PASSWORD default_config_hf = ''echoes2025''
   \<and> body right_password = JObj [(''password'', JStr ''echoes2025'')]
   \<and> verify_hf default_config_hf monday right_password monday_state
     = Inr (\<lparr>status = 200,
             json = JObj [(''valid'', JBool True),
                          (''message'', JStr ''Password verified successfully''),
                          (''requestsRemaining'', JNum 495)]\<rparr>, monday_state)
   \<and> \<not> has_key (JObj [(''valid'', JBool True),
                        (''message'', JStr ''Password verified successfully''),
                        (''requestsRemaining'', JNum 495)]) ''aiProvider''
   \<and> body empty_password = JObj [(''password'', JStr [])]
   \<and> verify_claude default_config monday empty_password monday_state
     = Inr (\<lparr>status = 400,
             json = JObj [(''valid'', JBool False), (''error'', JStr ''Password is required'')]\<rparr>,
            monday_state)"
  by (simp add: default_config_hf_def default_config_def right_password_def
        empty_password_def verify_request_def monday_def monday_state_def verify_hf_def
        verify_claude_def verify_def destructure_def
        DEMO_PASSWORD_def remaining_def resetDailyCounter_def has_key_def)

theorem verify_password_witness:
  "verify_claude default_config monday no_password monday_state
     = Inr (\<lparr>status = 400,
             json = JObj [(''valid'', JBool False), (''error'', JStr ''Password is required'')]\<rparr>,
            monday_state)
   \<and> verify_hf default_config_hf monday empty_password monday_state
     = Inr (\<lparr>status = 400,
             json = JObj [(''valid'', JBool False), (''error'', JStr ''Password is required'')]\<rparr>,
            monday_state)
   \<and> verify_claude default_config tuesday right_password monday_state
     = Inr (\<lparr>status = 200,
             json = JObj [(''valid'', JBool True),
                          (''message'', JStr ''Password verified successfully''),
                          (''requestsRemaining'', JNum 200),
                          (''aiProvider'', JStr ''Claude 3.5 Haiku'')]\<rparr>,
            \<lparr>dailyRequestCount = 0, lastResetDate = ''Tue Nov 04 2025'', limiter_store = ()\<rparr>)
   \<and> verify_hf default_config_hf monday wrong_password monday_state
     = Inr (\<lparr>status = 401,
             json = JObj [(''valid'', JBool False), (''error'', JStr ''Invalid password'')]\<rparr>,
            monday_state)"
  using verify_password [where req = no_password and kvs = "[]" and password = JUndefined
          and cfg = default_config and clk = monday and st = monday_state]
        verify_password [where req = empty_password and password = "JStr []"
          and cfg = default_config_hf and clk = monday and st = monday_state]
        verify_password [where req = right_password and cfg = default_config and clk = tuesday
          and st = monday_state]
        verify_password [where req = wrong_password and password = "JStr ''letmein''"
          and cfg = default_config_hf and clk = monday and st = monday_state]
  by (simp add: default_config_def default_config_hf_def no_password_def empty_password_def
        right_password_def wrong_password_def verify_request_def monday_def tuesday_def
        monday_state_def destructure_def DEMO_PASSWORD_def remaining_def
        resetDailyCounter_def)

section \<open>Messages of other roles\<close>

lemma buildPrompt_from_skips:
  assumes "get_prop m ''role'' = Inr r" "r \<noteq> JStr ''system''" "r \<noteq> JStr ''user''"
    "r \<noteq> JStr ''assistant''"
  shows "buildPrompt_from prompt (xs @ m # ys) = buildPrompt_from prompt (xs @ ys)"
proof (induction xs arbitrary: prompt)
  case Nil
  show ?case using assms by simp
next
  case (Cons x xs)
  show ?case by (simp add: Cons.IH cong: if_cong)
qed

lemma nonempty_array_is_valid: "ms \<noteq> [] \<Longrightarrow> \<not> invalid_messages (JArr ms)"
  by (simp add: invalid_messages_def)

lemma finish_chat_not_400:
  "status (response (finish_chat cfg provider st res)) \<noteq> 400"
  using finish_chat_status [of cfg provider st res] by auto

lemma chat_handler_hf_not_400:
  assumes "isDemoActive cfg clk" "destructure (body req) ''messages'' = Inr (JArr ms)" "ms \<noteq> []"
  shows "status (response (chat_handler_hf cfg clk up req st)) \<noteq> 400"
  using assms
  by (auto simp: chat_handler_hf_def invalid_messages_def error_response_def
        finish_chat_not_400 split: sum.splits)

text \<open>
  Claim C10. In \<^verbatim>\<open>part_000\<close>, a message whose role can be read and is none of
  \<^verbatim>\<open>system\<close>, \<^verbatim>\<open>user\<close> and \<^verbatim>\<open>assistant\<close> adds nothing to the prompt: the prompt is the one
  built without it, whatever stands before and after it. The validation of the request
  looks at the array only: every non-empty array is accepted, whatever its entries are, and
  the handler never answers 400 for one.
\<close>

theorem buildPrompt_drops_other_roles:
  "(get_prop m ''role'' = Inr r \<and> r \<noteq> JStr ''system'' \<and> r \<noteq> JStr ''user''
      \<and> r \<noteq> JStr ''assistant'' \<longrightarrow>
      buildPrompt (xs @ m # ys) = buildPrompt (xs @ ys))
   \<and> (ms \<noteq> [] \<longrightarrow> \<not> invalid_messages (JArr ms))
   \<and> (isDemoActive cfg clk \<and> destructure (body req) ''messages'' = Inr (JArr ms)
       \<and> ms \<noteq> [] \<longrightarrow>
      status (response (chat_handler_hf cfg clk upstream req st)) \<noteq> 400)"
  using buildPrompt_from_skips [of m r "[]" xs ys] nonempty_array_is_valid [of ms]
        chat_handler_hf_not_400 [of cfg clk req ms upstream st]
  by (simp add: buildPrompt_def)

theorem buildPrompt_drops_other_roles_witness:
  "get_prop tool_message ''role'' = Inr (JStr ''tool'')
   \<and> buildPrompt [hello_message, tool_message, hello_message]
     = buildPrompt [hello_message, hello_message]
   \<and> buildPrompt [hello_message, tool_message, hello_message]
     = Inr (''[INST] Hello [/INST]'' @ [CHR 0x0A] @ ''[INST] Hello [/INST]'' @ [CHR 0x0A])
   \<and> buildPrompt [tool_message] = Inr []
   \<and> \<not> invalid_messages (JArr [tool_message])
   \<and> \<not> invalid_messages (JArr [JNum 7, JStr ''x''])
   \<and> status (response (chat_handler_hf default_config_hf monday (\<lambda>i. hf_answer)
        \<lparr>x_demo_password = Some ''echoes2025'', body = JObj [(''messages'', JArr [tool_message])]\<rparr>
        monday_state)) = 200"
  using buildPrompt_drops_other_roles [where m = tool_message and r = "JStr ''tool''"
          and xs = "[hello_message]" and ys = "[hello_message]" and ms = "[tool_message]"
          and cfg = default_config_hf and clk = monday and upstream = "\<lambda>i. hf_answer"
          and req = "\<lparr>x_demo_password = Some ''echoes2025'',
                      body = JObj [(''messages'', JArr [tool_message])]\<rparr>"
          and st = monday_state]
        buildPrompt_drops_other_roles [where m = tool_message and r = "JStr ''tool''"
          and xs = "[]" and ys = "[]" and ms = "[JNum 7, JStr ''x'']"]
  by (simp add: tool_message_def hello_message_def default_config_hf_def default_config_def
        monday_def hf_answer_def monday_state_def route_defs adapter_defs hf_loop.simps)

end
